theory Spec2Isabelle
  imports Main "HOL-Library.Sublist"
begin

section \<open>Go strings and the string helpers the env-file parser uses\<close>

text \<open>
  A Go string is a sequence of bytes; \<open>string\<close> (a list of 8-bit characters) is the
  same thing.  The helpers below are the functions of Go's \<open>strings\<close> package that
  \<open>parseLine\<close>, \<open>parseValue\<close> and \<open>isIgnoredLine\<close> call, at the separators they
  are called with.
\<close>

abbreviation dquote :: char where "dquote \<equiv> CHR 0x22"
abbreviation squote :: char where "squote \<equiv> CHR 0x27"
abbreviation bslash :: char where "bslash \<equiv> CHR 0x5C"
abbreviation LF :: char where "LF \<equiv> CHR 0x0A"
abbreviation CR :: char where "CR \<equiv> CHR 0x0D"
abbreviation hash :: char where "hash \<equiv> CHR 0x23"
abbreviation equals :: char where "equals \<equiv> CHR 0x3D"
abbreviation dollar :: char where "dollar \<equiv> CHR 0x24"
abbreviation space :: char where "space \<equiv> CHR 0x20"

definition HasPrefix :: "string \<Rightarrow> string \<Rightarrow> bool" where
  "HasPrefix s p = prefix p s"

definition HasSuffix :: "string \<Rightarrow> string \<Rightarrow> bool" where
  "HasSuffix s p = (length p \<le> length s \<and> drop (length s - length p) s = p)"

definition TrimPrefix :: "string \<Rightarrow> string \<Rightarrow> string" where
  "TrimPrefix s p = (if HasPrefix s p then drop (length p) s else s)"

text \<open>\<open>strings.Split(s, sep)\<close> for a one-byte separator: always at least one part.\<close>

fun Split :: "string \<Rightarrow> char \<Rightarrow> string list" where
  "Split [] sep = [Nil]"
| "Split (x # xs) sep =
     (if x = sep then [] # Split xs sep
      else (case Split xs sep of
              p # ps \<Rightarrow> (x # p) # ps
            | [] \<Rightarrow> [x # Nil]))"

text \<open>\<open>strings.SplitN(s, "=", 2)\<close>: one part when there is no separator (\<open>None\<close>
  here), otherwise the text before the first separator and everything after it.\<close>

definition SplitN2 :: "string \<Rightarrow> char \<Rightarrow> (string \<times> string) option" where
  "SplitN2 s sep =
     (if sep \<in> set s
      then Some (takeWhile (\<lambda>c. c \<noteq> sep) s, tl (dropWhile (\<lambda>c. c \<noteq> sep) s))
      else None)"

fun Join :: "string list \<Rightarrow> string \<Rightarrow> string" where
  "Join [] sep = []"
| "Join [p] sep = p"
| "Join (p # q # ps) sep = p @ sep @ Join (q # ps) sep"

text \<open>\<open>strings.Count(s, c)\<close> for a one-byte substring.\<close>

definition Count :: "string \<Rightarrow> char \<Rightarrow> nat" where
  "Count s c = count_list s c"

text \<open>\<open>strings.Trim(s, " ")\<close>: leading and trailing spaces only.\<close>

definition Trim :: "string \<Rightarrow> char \<Rightarrow> string" where
  "Trim s c = rev (dropWhile (\<lambda>x. x = c) (rev (dropWhile (\<lambda>x. x = c) s)))"

text \<open>
  \<open>strings.TrimSpace\<close> removes leading, then trailing, white space as Unicode defines
  it.  On bytes, a white-space rune is one of the UTF-8 encodings below (the six ASCII
  ones, U+0085, U+00A0, U+1680, U+2000 to U+200A, U+2028, U+2029, U+202F, U+205F and
  U+3000); a byte that is not valid UTF-8 decodes to U+FFFD, which is not white space.
\<close>

definition spaceRunes :: "string list" where
  "spaceRunes =
     [ [CHR 0x09], [CHR 0x0A], [CHR 0x0B], [CHR 0x0C], [CHR 0x0D], [CHR 0x20],
      [CHR 0xC2, CHR 0x85], [CHR 0xC2, CHR 0xA0],
      [CHR 0xE1, CHR 0x9A, CHR 0x80],
      [CHR 0xE2, CHR 0x80, CHR 0x80], [CHR 0xE2, CHR 0x80, CHR 0x81],
      [CHR 0xE2, CHR 0x80, CHR 0x82], [CHR 0xE2, CHR 0x80, CHR 0x83],
      [CHR 0xE2, CHR 0x80, CHR 0x84], [CHR 0xE2, CHR 0x80, CHR 0x85],
      [CHR 0xE2, CHR 0x80, CHR 0x86], [CHR 0xE2, CHR 0x80, CHR 0x87],
      [CHR 0xE2, CHR 0x80, CHR 0x88], [CHR 0xE2, CHR 0x80, CHR 0x89],
      [CHR 0xE2, CHR 0x80, CHR 0x8A],
      [CHR 0xE2, CHR 0x80, CHR 0xA8], [CHR 0xE2, CHR 0x80, CHR 0xA9],
      [CHR 0xE2, CHR 0x80, CHR 0xAF],
      [CHR 0xE2, CHR 0x81, CHR 0x9F],
      [CHR 0xE3, CHR 0x80, CHR 0x80]]"

text \<open>The length of the white-space rune a string starts with, 0 when there is none.\<close>

definition leadingSpace :: "string \<Rightarrow> nat" where
  "leadingSpace s =
     (case List.find (\<lambda>w. HasPrefix s w) spaceRunes of None \<Rightarrow> 0 | Some w \<Rightarrow> length w)"

definition trailingSpace :: "string \<Rightarrow> nat" where
  "trailingSpace s =
     (case List.find (\<lambda>w. HasSuffix s w) spaceRunes of None \<Rightarrow> 0 | Some w \<Rightarrow> length w)"

fun trimLeftFuel :: "nat \<Rightarrow> string \<Rightarrow> string" where
  "trimLeftFuel 0 s = s"
| "trimLeftFuel (Suc n) s =
     (if leadingSpace s = 0 then s else trimLeftFuel n (drop (leadingSpace s) s))"

fun trimRightFuel :: "nat \<Rightarrow> string \<Rightarrow> string" where
  "trimRightFuel 0 s = s"
| "trimRightFuel (Suc n) s =
     (if trailingSpace s = 0 then s
      else trimRightFuel n (take (length s - trailingSpace s) s))"

text \<open>Each step removes at least one byte, so \<open>length s\<close> steps always suffice.\<close>

definition TrimLeftSpace :: "string \<Rightarrow> string" where
  "TrimLeftSpace s = trimLeftFuel (length s) s"

definition TrimRightSpace :: "string \<Rightarrow> string" where
  "TrimRightSpace s = trimRightFuel (length s) s"

definition TrimSpace :: "string \<Rightarrow> string" where
  "TrimSpace s = TrimRightSpace (TrimLeftSpace s)"

section \<open>The env-file parser (package env)\<close>

text \<open>
  The errors of the repository: the two of \<open>parseLine\<close> (the second carries the line
  of its message), the scanner's, and the two of package container.
\<close>

datatype error =
    ErrZeroLength
  | ErrSeparate string
  | ErrTooLong
  | ErrNoFlagName
  | ErrCantSet

definition isIgnoredLine :: "string \<Rightarrow> bool" where
  "isIgnoredLine line =
     (let trimmed = TrimSpace line
      in length trimmed = 0 \<or> HasPrefix trimmed [hash])"

subsection \<open>parseValue\<close>

text \<open>
  \<open>singleQuotesRegex\<close> is \<open>\A'(.*)'\z\<close> and \<open>doubleQuotesRegex\<close> is \<open>\A"(.*)"\z\<close>.
  Such a pattern matches exactly the strings of at least two bytes that start and end
  with the quote and have no line feed in between (Go's \<open>.\<close> matches every character
  but the line feed).  The functions say whether \<open>FindStringSubmatch\<close> is non-nil.
\<close>

definition quotedBy :: "char \<Rightarrow> string \<Rightarrow> bool" where
  "quotedBy q v =
     (2 \<le> length v \<and> hd v = q \<and> last v = q \<and> LF \<notin> set (butlast (tl v)))"

definition singleQuotesRegex :: "string \<Rightarrow> bool" where
  "singleQuotesRegex v = quotedBy squote v"

definition doubleQuotesRegex :: "string \<Rightarrow> bool" where
  "doubleQuotesRegex v = quotedBy dquote v"

text \<open>
  The callback of \<open>escapeRegex.ReplaceAllStringFunc\<close>, given the character after the
  backslash of the match.
\<close>

definition expandMatch :: "char \<Rightarrow> string" where
  "expandMatch c =
     (if c = CHR ''n'' then [LF]
      else if c = CHR ''r'' then [CR]
      else [bslash, c])"

text \<open>
  \<open>escapeRegex\<close> is \<open>\\.\<close>: a backslash and one character that is not a line feed.
  \<open>ReplaceAllStringFunc\<close> replaces the leftmost matches, which do not overlap.
\<close>

fun escapeReplace :: "string \<Rightarrow> string" where
  "escapeReplace (b # c # rest) =
     (if b = bslash \<and> c \<noteq> LF then expandMatch c @ escapeReplace rest
      else b # escapeReplace (c # rest))"
| "escapeReplace [b] = [b]"
| "escapeReplace [] = []"

text \<open>
  \<open>unescapeCharsRegex\<close> is \<open>\\([^$])\<close>: a backslash and one character that is not a
  dollar sign (the negated class does match a line feed).  \<open>ReplaceAllString\<close> with
  \<open>$1\<close> keeps the character and drops the backslash.
\<close>

fun unescapeChars :: "string \<Rightarrow> string" where
  "unescapeChars (b # c # rest) =
     (if b = bslash \<and> c \<noteq> dollar then c # unescapeChars rest
      else b # unescapeChars (c # rest))"
| "unescapeChars [b] = [b]"
| "unescapeChars [] = []"

definition parseValue :: "string \<Rightarrow> string" where
  "parseValue value0 =
     (let value1 = Trim value0 space
      in if 1 < length value1
         then
           let singleQuotes = singleQuotesRegex value1;
               doubleQuotes = doubleQuotesRegex value1;
               value2 = (if singleQuotes \<or> doubleQuotes
                         then take (length value1 - 1 - 1) (drop 1 value1)
                         else value1)
           in if doubleQuotes then unescapeChars (escapeReplace value2) else value2
         else value1)"

subsection \<open>parseLine\<close>

text \<open>
  The loop over the parts of a line split at \<open>#\<close>: \<open>inQuotes\<close> and \<open>keep\<close> are the
  loop's two variables.
\<close>

fun keepParts :: "bool \<Rightarrow> string list \<Rightarrow> string list \<Rightarrow> string list" where
  "keepParts inQuotes keep [] = keep"
| "keepParts inQuotes keep (part # parts) =
     (let one = (Count part dquote = 1 \<or> Count part squote = 1);
          keep1 = (if one \<and> inQuotes then keep @ [part] else keep);
          inQuotes1 = (if one then \<not> inQuotes else inQuotes);
          keep2 = (if length keep1 = 0 \<or> inQuotes1 then keep1 @ [part] else keep1)
      in keepParts inQuotes1 keep2 parts)"

definition stripComment :: "string \<Rightarrow> string" where
  "stripComment line =
     (if hash \<in> set line
      then Join (keepParts False [] (Split line hash)) [hash]
      else line)"

definition parseLine :: "string \<Rightarrow> error + (string \<times> string)" where
  "parseLine line0 =
     (if length line0 = 0 then Inl ErrZeroLength
      else
        let line = stripComment line0
        in case SplitN2 line equals of
             None \<Rightarrow> Inl (ErrSeparate line)
           | Some (k, v) \<Rightarrow>
               let key = (if HasPrefix k ''export'' then TrimPrefix k ''export'' else k)
               in Inr (TrimSpace key, parseValue v))"

subsection \<open>parse\<close>

text \<open>
  \<open>bufio.Scanner\<close> with the default \<open>ScanLines\<close>: the text is cut at line feeds, a
  last piece is a line only when it is not empty, and one trailing carriage return is
  dropped from every line.  A line of 65536 bytes or more (\<open>MaxScanTokenSize\<close>) makes
  the scanner stop with \<open>ErrTooLong\<close>.
\<close>

definition dropCR :: "string \<Rightarrow> string" where
  "dropCR data = (if data \<noteq> [] \<and> last data = CR then butlast data else data)"

definition scanLines :: "string \<Rightarrow> error + string list" where
  "scanLines text =
     (let pieces = Split text LF;
          tokens = (if last pieces = [] then butlast pieces else pieces)
      in if \<exists>t \<in> set tokens. 65536 \<le> length t then Inl ErrTooLong
         else Inr (map dropCR tokens))"

fun parseLines :: "(string \<rightharpoonup> string) \<Rightarrow> string list \<Rightarrow> (string \<rightharpoonup> string) \<times> error option" where
  "parseLines result [] = (result, None)"
| "parseLines result (line # lines) =
     (if \<not> isIgnoredLine line
      then (case parseLine line of
              Inl err \<Rightarrow> (result, Some err)
            | Inr (key, val) \<Rightarrow> parseLines (result(key \<mapsto> val)) lines)
      else parseLines result lines)"

definition parse :: "string \<Rightarrow> (string \<rightharpoonup> string) \<times> error option" where
  "parse text =
     (case scanLines text of
        Inl err \<Rightarrow> (Map.empty, Some err)
      | Inr lines \<Rightarrow> parseLines Map.empty lines)"

section \<open>Library functions the field resolver calls\<close>

subsection \<open>strconv\<close>

text \<open>\<open>strconv.ParseBool\<close> accepts exactly these twelve spellings.\<close>

definition ParseBool :: "string \<Rightarrow> bool option" where
  "ParseBool str =
     (if str \<in> set [''1'', ''t'', ''T'', ''TRUE'', ''true'', ''True''] then Some True
      else if str \<in> set [''0'', ''f'', ''F'', ''FALSE'', ''false'', ''False''] then Some False
      else None)"

definition isDigit :: "char \<Rightarrow> bool" where
  "isDigit c = (c \<in> set ''0123456789'')"

definition digitVal :: "char \<Rightarrow> nat" where
  "digitVal c = of_char c - 48"

definition digitsVal :: "string \<Rightarrow> nat" where
  "digitsVal ds = foldl (\<lambda>n c. 10 * n + digitVal c) 0 ds"

text \<open>
  \<open>strconv.Atoi\<close>: an optional sign, then one or more decimal digits and nothing
  else; a value outside the range of \<open>int\<close> (64 bits) is an error as well.
\<close>

definition Atoi :: "string \<Rightarrow> int option" where
  "Atoi s =
     (let neg = (s \<noteq> [] \<and> hd s = CHR ''-'');
          ds = (if s \<noteq> [] \<and> (hd s = CHR ''-'' \<or> hd s = CHR ''+'') then tl s else s);
          n = (if neg then - int (digitsVal ds) else int (digitsVal ds))
      in if ds = [] \<or> \<not> list_all isDigit ds then None
         else if n < - (2 ^ 63) \<or> 2 ^ 63 - 1 < n then None
         else Some n)"

text \<open>
  Values of type \<open>float64\<close> are kept abstract (type \<open>'f\<close>).  What the resolver needs
  of them is \<open>strconv.ParseFloat(s, 64)\<close>, the zero value and Go's \<open>!=\<close> (which is not
  the negation of identity: a NaN differs from itself).
\<close>

record 'f float64_ops =
  ParseFloat :: "string \<Rightarrow> 'f option"
  floatZero :: 'f
  floatNeq :: "'f \<Rightarrow> 'f \<Rightarrow> bool"

subsection \<open>time\<close>

text \<open>
  A \<open>time.Time\<close> is an instant (seconds since 1970-01-01T00:00:00Z and nanoseconds)
  together with a location, kept here as the zone's name and its offset east of UTC.
\<close>

record Time =
  unixSec :: int
  nsec :: nat
  zoneName :: string
  zoneOffset :: int

definition isLeap :: "nat \<Rightarrow> bool" where
  "isLeap y = (y mod 4 = 0 \<and> (y mod 100 \<noteq> 0 \<or> y mod 400 = 0))"

definition daysIn :: "nat \<Rightarrow> nat \<Rightarrow> nat" where
  "daysIn m y =
     (if m = 2 then (if isLeap y then 29 else 28)
      else if m \<in> {4, 6, 9, 11} then 30 else 31)"

text \<open>Days from 1970-01-01 to a date of the proleptic Gregorian calendar.\<close>

definition daysFromCivil :: "nat \<Rightarrow> nat \<Rightarrow> nat \<Rightarrow> int" where
  "daysFromCivil y m d =
     (let y' = (if m \<le> 2 then int y - 1 else int y);
          era = y' div 400;
          yoe = y' - era * 400;
          mp = (if m > 2 then int m - 3 else int m + 9);
          doy = (153 * mp + 2) div 5 + int d - 1;
          doe = yoe * 365 + yoe div 4 - yoe div 100 + doy
      in era * 146097 + doe - 719468)"

text \<open>\<open>time.Date(y, m, d, h, mi, s, ns, time.UTC)\<close>.\<close>

definition DateUTC :: "nat \<Rightarrow> nat \<Rightarrow> nat \<Rightarrow> nat \<Rightarrow> nat \<Rightarrow> nat \<Rightarrow> nat \<Rightarrow> Time" where
  "DateUTC y m d h mi s ns =
     \<lparr>unixSec = daysFromCivil y m d * 86400 + int h * 3600 + int mi * 60 + int s,
      nsec = ns, zoneName = ''UTC'', zoneOffset = 0\<rparr>"

text \<open>The zero value \<open>time.Time{}\<close>: January 1 of year 1, 00:00:00 UTC.\<close>

definition zeroTime :: Time where
  "zeroTime = DateUTC 1 1 1 0 0 0 0"

text \<open>
  \<open>time.Parse\<close> splits a layout into literal text and reference elements.  The six
  layouts of \<open>timeFormats\<close> use the elements below; \<open>Z\<close> at the end of the fourth
  layout is literal text.
\<close>

datatype chunk =
    Lit string
  | StdLongYear
  | StdZeroMonth
  | StdZeroDay
  | StdHour
  | StdZeroMinute
  | StdZeroSecond
  | StdTZ
  | StdNumTZ

definition dateChunks :: "chunk list" where
  "dateChunks = [StdLongYear, Lit ''-'', StdZeroMonth, Lit ''-'', StdZeroDay]"

definition clockChunks :: "chunk list" where
  "clockChunks = [StdHour, Lit '':'', StdZeroMinute, Lit '':'', StdZeroSecond]"

definition layoutChunks :: "string \<Rightarrow> chunk list option" where
  "layoutChunks layout =
     (if layout = ''2006-01-02'' then Some dateChunks
      else if layout = ''2006-01-02 15:04:05'' then Some (dateChunks @ [Lit '' ''] @ clockChunks)
      else if layout = ''2006-01-02T15:04:05'' then Some (dateChunks @ [Lit ''T''] @ clockChunks)
      else if layout = ''2006-01-02T15:04:05Z''
        then Some (dateChunks @ [Lit ''T''] @ clockChunks @ [Lit ''Z''])
      else if layout = ''2006-01-02T15:04:05 MST''
        then Some (dateChunks @ [Lit ''T''] @ clockChunks @ [Lit '' '', StdTZ])
      else if layout = ''2006-01-02T15:04:05-0700''
        then Some (dateChunks @ [Lit ''T''] @ clockChunks @ [StdNumTZ])
      else None)"

text \<open>
  \<open>skip\<close> removes literal layout text from the value; a space of the layout stands for
  any run of spaces, also an empty one at the end of the value.
\<close>

function skip :: "string \<Rightarrow> string \<Rightarrow> string option" where
  "skip val [] = Some val"
| "skip val (p # ps) =
     (if p = space
      then (if val \<noteq> [] \<and> hd val \<noteq> space then None
            else skip (dropWhile (\<lambda>c. c = space) val) (dropWhile (\<lambda>c. c = space) ps))
      else (case val of
              [] \<Rightarrow> None
            | v # vs \<Rightarrow> if v = p then skip vs ps else None))"
  by pat_completeness auto
termination
  by (relation "measure (\<lambda>(val, prefix). length prefix)")
     (auto simp: less_Suc_eq_le length_dropWhile_le)

text \<open>\<open>getnum\<close>: one or two digits, exactly two when \<open>fixed\<close>.\<close>

definition getnum :: "string \<Rightarrow> bool \<Rightarrow> (nat \<times> string) option" where
  "getnum s fixed =
     (case s of
        [] \<Rightarrow> None
      | a # r \<Rightarrow>
          if \<not> isDigit a then None
          else (case r of
                  [] \<Rightarrow> if fixed then None else Some (digitVal a, r)
                | b # r' \<Rightarrow>
                    if \<not> isDigit b then (if fixed then None else Some (digitVal a, r))
                    else Some (digitVal a * 10 + digitVal b, r')))"

text \<open>What \<open>time.Parse\<close> has read so far; \<open>pZone\<close> is the zone's name and offset.\<close>

record parseState =
  pYear :: nat
  pMonth :: nat
  pDay :: nat
  pHour :: nat
  pMin :: nat
  pSec :: nat
  pNsec :: nat
  pZone :: "(string \<times> int) option"
  pShift :: int

definition parseState0 :: parseState where
  "parseState0 = \<lparr>pYear = 0, pMonth = 1, pDay = 1, pHour = 0, pMin = 0, pSec = 0, pNsec = 0,
              pZone = None, pShift = 0\<rparr>"

text \<open>
  A fractional second may follow the seconds although the layout has none: a period or
  comma and digits, of which the first nine count.
\<close>

definition fraction :: "string \<Rightarrow> nat \<times> string" where
  "fraction val =
     (case val of
        c # d # r \<Rightarrow>
          if (c = CHR ''.'' \<or> c = CHR '','') \<and> isDigit d
          then (let ds = takeWhile isDigit (d # r);
                    used = take 9 ds
                in (digitsVal used * 10 ^ (9 - length used), drop (length ds) (d # r)))
          else (0, val)
      | _ \<Rightarrow> (0, val))"

text \<open>
  A zone abbreviation (\<open>parseTimeZone\<close>): \<open>ChST\<close>, \<open>MeST\<close>, \<open>GMT\<close> with an optional
  signed hour, a signed hour alone, or three to five capital letters (four must end in
  \<open>T\<close> or be \<open>WITA\<close>, five must end in \<open>T\<close>).  The result is the length of the name.
\<close>

definition parseSignedOffset :: "string \<Rightarrow> nat" where
  "parseSignedOffset val =
     (case val of
        [] \<Rightarrow> 0
      | sign # r \<Rightarrow>
          if sign \<noteq> CHR ''-'' \<and> sign \<noteq> CHR ''+'' then 0
          else (let ds = takeWhile isDigit r
                in if ds = [] \<or> 2 ^ 63 < digitsVal ds \<or> 23 < digitsVal ds then 0
                   else 1 + length ds))"

definition isUpper :: "char \<Rightarrow> bool" where
  "isUpper c = (c \<in> set ''ABCDEFGHIJKLMNOPQRSTUVWXYZ'')"

definition parseTimeZone :: "string \<Rightarrow> nat option" where
  "parseTimeZone val =
     (if length val < 3 then None
      else if take 4 val = ''ChST'' \<or> take 4 val = ''MeST'' then Some 4
      else if take 3 val = ''GMT''
        then Some (if length val = 3 then 3 else 3 + parseSignedOffset (drop 3 val))
      else if hd val = CHR ''+'' \<or> hd val = CHR ''-''
        then (if 0 < parseSignedOffset val then Some (parseSignedOffset val) else None)
      else
        (let nUpper = length (takeWhile isUpper (take 6 val))
         in if nUpper = 5 \<and> val ! 4 = CHR ''T'' then Some 5
            else if nUpper = 4 \<and> (val ! 3 = CHR ''T'' \<or> take 4 val = ''WITA'') then Some 4
            else if nUpper = 3 then Some 3
            else None))"

text \<open>
  The offset of a zone name that the local zone database does not know (the process is
  taken to run with UTC as its local zone): the hours after \<open>GMT\<close>, otherwise 0.
\<close>

definition fakeZoneOffset :: "string \<Rightarrow> int" where
  "fakeZoneOffset name =
     (if 3 < length name \<and> take 3 name = ''GMT''
      then (if name ! 3 = CHR ''-'' then - int (digitsVal (drop 4 name))
            else int (digitsVal (drop 4 name))) * 3600
      else 0)"

text \<open>One reference element of the layout, read from the front of the value.\<close>

fun parseChunk :: "chunk \<Rightarrow> string \<Rightarrow> parseState \<Rightarrow> (parseState \<times> string) option" where
  "parseChunk (Lit l) val p = map_option (\<lambda>r. (p, r)) (skip val l)"
| "parseChunk StdLongYear val p =
     (if length val < 4 \<or> \<not> list_all isDigit (take 4 val) then None
      else Some (p\<lparr>pYear := digitsVal (take 4 val)\<rparr>, drop 4 val))"
| "parseChunk StdZeroMonth val p =
     (case getnum val True of
        None \<Rightarrow> None
      | Some (n, r) \<Rightarrow> if n \<le> 0 \<or> 12 < n then None else Some (p\<lparr>pMonth := n\<rparr>, r))"
| "parseChunk StdZeroDay val p =
     (case getnum val True of
        None \<Rightarrow> None
      | Some (n, r) \<Rightarrow> Some (p\<lparr>pDay := n\<rparr>, r))"
| "parseChunk StdHour val p =
     (case getnum val False of
        None \<Rightarrow> None
      | Some (n, r) \<Rightarrow> if 24 \<le> n then None else Some (p\<lparr>pHour := n\<rparr>, r))"
| "parseChunk StdZeroMinute val p =
     (case getnum val True of
        None \<Rightarrow> None
      | Some (n, r) \<Rightarrow> if 60 \<le> n then None else Some (p\<lparr>pMin := n\<rparr>, r))"
| "parseChunk StdZeroSecond val p =
     (case getnum val True of
        None \<Rightarrow> None
      | Some (n, r) \<Rightarrow>
          if 60 \<le> n then None
          else Some (p\<lparr>pSec := n, pNsec := fst (fraction r)\<rparr>, snd (fraction r)))"
| "parseChunk StdTZ val p =
     (if 3 \<le> length val \<and> take 3 val = ''UTC''
      then Some (p\<lparr>pZone := Some (''UTC'', 0)\<rparr>, drop 3 val)
      else (case parseTimeZone val of
              None \<Rightarrow> None
            | Some n \<Rightarrow>
                Some (p\<lparr>pZone := Some (take n val, fakeZoneOffset (take n val))\<rparr>,
                      drop n val)))"
| "parseChunk StdNumTZ val p =
     (if length val < 5 then None
      else (case (getnum (take 2 (drop 1 val)) True, getnum (take 2 (drop 3 val)) True) of
              (Some (hr, _), Some (mm, _)) \<Rightarrow>
                if 24 < hr \<or> 60 < mm then None
                else if hd val = CHR ''+''
                  then Some (p\<lparr>pZone := Some (if hr = 0 \<and> mm = 0 then ''UTC'' else [],
                                               (int hr * 60 + int mm) * 60),
                               pShift := (int hr * 60 + int mm) * 60\<rparr>, drop 5 val)
                else if hd val = CHR ''-''
                  then Some (p\<lparr>pZone := Some (if hr = 0 \<and> mm = 0 then ''UTC'' else [],
                                               - ((int hr * 60 + int mm) * 60)),
                               pShift := - ((int hr * 60 + int mm) * 60)\<rparr>, drop 5 val)
                else None
            | _ \<Rightarrow> None))"

fun parseChunks :: "chunk list \<Rightarrow> string \<Rightarrow> parseState \<Rightarrow> (parseState \<times> string) option" where
  "parseChunks [] val p = Some (p, val)"
| "parseChunks (c # cs) val p =
     (case parseChunk c val p of
        None \<Rightarrow> None
      | Some (p', r) \<Rightarrow> parseChunks cs r p')"

text \<open>
  \<open>time.Parse(layout, value)\<close> for the layouts of \<open>timeFormats\<close>: every element must
  parse, no text may be left over, and the day must exist in its month.  A numeric
  offset moves the instant; an abbreviation only names the zone.
\<close>

definition time_Parse :: "string \<Rightarrow> string \<Rightarrow> Time option" where
  "time_Parse layout val =
     (case layoutChunks layout of
        None \<Rightarrow> None
      | Some cs \<Rightarrow>
          (case parseChunks cs val parseState0 of
             None \<Rightarrow> None
           | Some (p, r) \<Rightarrow>
               if r \<noteq> [] then None
               else if pDay p < 1 \<or> daysIn (pMonth p) (pYear p) < pDay p then None
               else
                 (let t = DateUTC (pYear p) (pMonth p) (pDay p) (pHour p) (pMin p) (pSec p)
                            (pNsec p)
                  in case pZone p of
                       None \<Rightarrow> Some t
                     | Some (name, off) \<Rightarrow>
                         Some (t\<lparr>unixSec := unixSec t - pShift p,
                                 zoneName := name, zoneOffset := off\<rparr>))))"

text \<open>The two library operations on \<open>time.Time\<close> that package container uses.\<close>

record 't time_ops =
  timeParse :: "string \<Rightarrow> string \<Rightarrow> 't option"
  timeZero :: 't

definition goTime :: "Time time_ops" where
  "goTime = \<lparr>timeParse = time_Parse, timeZero = zeroTime\<rparr>"

subsection \<open>strings.ToLower, on the ASCII letters of a type name\<close>

definition toLowerChar :: "char \<Rightarrow> char" where
  "toLowerChar c = (if isUpper c then char_of (of_char c + (32::nat)) else c)"

definition ToLower :: "string \<Rightarrow> string" where
  "ToLower s = map toLowerChar s"

subsection \<open>flag\<close>

text \<open>
  The process-wide \<open>flag.CommandLine\<close>: the variables of the flags defined so far, by
  flag name, and whether \<open>flag.Parse\<close> has run.  \<open>flag.Bool\<close> and its siblings return a
  pointer to the new flag's variable; here that pointer is the flag's name, and reading
  through it looks the name up in \<open>formal\<close>.
\<close>

datatype 'f flagValue = FBool bool | FInt int | FFloat 'f | FString string

record 'f FlagSet =
  formal :: "string \<rightharpoonup> 'f flagValue"
  parsed :: bool

datatype panic =
    PanicFlagName string
  | PanicFlagRedefined string
  | PanicReflect
  | PanicError error
  | Exit nat

text \<open>
  \<open>FlagSet.Var\<close>, which every flag definition goes through, panics when the name begins
  with \<open>-\<close>, contains \<open>=\<close> or is already defined.
\<close>

definition flag_Var :: "'f FlagSet \<Rightarrow> string \<Rightarrow> 'f flagValue \<Rightarrow> panic + 'f FlagSet" where
  "flag_Var fs name v =
     (if HasPrefix name ''-'' \<or> equals \<in> set name then Inl (PanicFlagName name)
      else if formal fs name \<noteq> None then Inl (PanicFlagRedefined name)
      else Inr (fs\<lparr>formal := (formal fs)(name \<mapsto> v)\<rparr>))"

text \<open>
  The command line after the program name.  An argument that sets a flag is kept
  with the value the flag package converts its text to; parsing stops at the first
  argument that is not a flag.
\<close>

datatype 'f arg = Assign string "'f flagValue" | Positional string

definition sameKind :: "'f flagValue \<Rightarrow> 'f flagValue \<Rightarrow> bool" where
  "sameKind a b =
     (case (a, b) of
        (FBool _, FBool _) \<Rightarrow> True
      | (FInt _, FInt _) \<Rightarrow> True
      | (FFloat _, FFloat _) \<Rightarrow> True
      | (FString _, FString _) \<Rightarrow> True
      | _ \<Rightarrow> False)"

text \<open>
  \<open>flag.Parse\<close>: a flag that is not defined, or a value that does not convert to the
  flag's type, ends the process with status 2 (\<open>flag.ExitOnError\<close>).
\<close>

fun parseArgs :: "'f arg list \<Rightarrow> (string \<rightharpoonup> 'f flagValue) \<Rightarrow> panic + (string \<rightharpoonup> 'f flagValue)" where
  "parseArgs [] m = Inr m"
| "parseArgs (Positional a # rest) m = Inr m"
| "parseArgs (Assign name v # rest) m =
     (case m name of
        None \<Rightarrow> Inl (Exit 2)
      | Some old \<Rightarrow> if sameKind old v then parseArgs rest (m(name \<mapsto> v)) else Inl (Exit 2))"

definition flag_Parse :: "'f arg list \<Rightarrow> 'f FlagSet \<Rightarrow> panic + 'f FlagSet" where
  "flag_Parse args fs =
     (case parseArgs args (formal fs) of
        Inl p \<Rightarrow> Inl p
      | Inr m \<Rightarrow> Inr (fs\<lparr>formal := m, parsed := True\<rparr>))"

text \<open>Reading a flag's variable through the pointer a container holds.\<close>

definition derefBool :: "'f FlagSet \<Rightarrow> string \<Rightarrow> bool" where
  "derefBool fs p = (case formal fs p of Some (FBool b) \<Rightarrow> b | _ \<Rightarrow> False)"

definition derefInt :: "'f FlagSet \<Rightarrow> string \<Rightarrow> int" where
  "derefInt fs p = (case formal fs p of Some (FInt n) \<Rightarrow> n | _ \<Rightarrow> 0)"

definition derefFloat :: "'f float64_ops \<Rightarrow> 'f FlagSet \<Rightarrow> string \<Rightarrow> 'f" where
  "derefFloat fo fs p = (case formal fs p of Some (FFloat x) \<Rightarrow> x | _ \<Rightarrow> floatZero fo)"

definition derefString :: "'f FlagSet \<Rightarrow> string \<Rightarrow> string" where
  "derefString fs p = (case formal fs p of Some (FString s) \<Rightarrow> s | _ \<Rightarrow> [])"

section \<open>The field resolver (package container)\<close>

definition TagFlagName :: string where "TagFlagName = ''flag''"
definition TagEnvName :: string where "TagEnvName = ''env''"
definition TagDefaultValue :: string where "TagDefaultValue = ''default''"
definition TagDescription :: string where "TagDescription = ''description''"

definition timeFormats :: "string list" where
  "timeFormats =
     [''2006-01-02'',
      ''2006-01-02 15:04:05'',
      ''2006-01-02T15:04:05'',
      ''2006-01-02T15:04:05Z'',
      ''2006-01-02T15:04:05 MST'',
      ''2006-01-02T15:04:05-0700'']"

text \<open>
  The configuration struct behind the pointer \<open>config\<close>: one entry per field, with what
  reflection reports of it (name, \<open>Type.String()\<close>, the struct tag as a lookup, whether
  the field is exported and so can be set) and the value it holds.
\<close>

datatype ('f, 't) fieldVal =
    VBool bool
  | VInt int
  | VFloat 'f
  | VString string
  | VTime 't
  | VOther

record ('f, 't) structField =
  sfName :: string
  sfType :: string
  sfTag :: "string \<rightharpoonup> string"
  sfExported :: bool
  sfValue :: "('f, 't) fieldVal"

text \<open>\<open>StructTag.Get\<close>: the empty string when the key is absent.\<close>

definition tagGet :: "(string \<rightharpoonup> string) \<Rightarrow> string \<Rightarrow> string" where
  "tagGet tag key = (case tag key of None \<Rightarrow> [] | Some v \<Rightarrow> v)"

text \<open>
  A Container.  The five \<open>...Value\<close> fields are pointers to flag variables (\<open>None\<close> is
  nil); \<open>fieldValue\<close> is the \<open>reflect.Value\<close> of the field, here its index in the struct
  (\<open>None\<close> is the zero \<open>reflect.Value\<close>, which no setter accepts).  The struct itself
  (\<open>config\<close>, \<open>configValue\<close>) is passed to the functions that read or write it.
\<close>

record container =
  boolValue :: "string option"
  defaultValue :: string
  description :: string
  envFile :: "string \<rightharpoonup> string"
  envName :: string
  fieldName :: string
  fieldType :: string
  fieldValue :: "nat option"
  flagName :: string
  floatValue :: "string option"
  intValue :: "string option"
  stringValue :: "string option"
  timeValue :: "string option"

subsection \<open>Default coercion and timestamp parsing\<close>

fun parseTimeLoop :: "'t time_ops \<Rightarrow> string list \<Rightarrow> string \<Rightarrow> 't" where
  "parseTimeLoop to [] val = timeZero to"
| "parseTimeLoop to (f # fs) val =
     (case timeParse to f val of
        Some t \<Rightarrow> t
      | None \<Rightarrow> parseTimeLoop to fs val)"

definition parseTime :: "'t time_ops \<Rightarrow> string \<Rightarrow> 't" where
  "parseTime to val = parseTimeLoop to timeFormats val"

fun isTimeLoop :: "'t time_ops \<Rightarrow> string list \<Rightarrow> string \<Rightarrow> bool" where
  "isTimeLoop to [] val = False"
| "isTimeLoop to (f # fs) val =
     (case timeParse to f val of
        Some t \<Rightarrow> True
      | None \<Rightarrow> isTimeLoop to fs val)"

definition isTime :: "'t time_ops \<Rightarrow> string \<Rightarrow> bool" where
  "isTime to val = isTimeLoop to timeFormats val"

definition defaultValueToBool :: "container \<Rightarrow> bool" where
  "defaultValueToBool c =
     (case ParseBool (defaultValue c) of None \<Rightarrow> False | Some result \<Rightarrow> result)"

definition defaultValueToFloat :: "'f float64_ops \<Rightarrow> container \<Rightarrow> 'f" where
  "defaultValueToFloat fo c =
     (case ParseFloat fo (defaultValue c) of None \<Rightarrow> floatZero fo | Some result \<Rightarrow> result)"

definition defaultValueToInt :: "container \<Rightarrow> int" where
  "defaultValueToInt c =
     (case Atoi (defaultValue c) of None \<Rightarrow> 0 | Some result \<Rightarrow> result)"

definition defaultValueToString :: "container \<Rightarrow> string" where
  "defaultValueToString c = defaultValue c"

definition defaultValueToTime :: "'t time_ops \<Rightarrow> container \<Rightarrow> 't" where
  "defaultValueToTime to c =
     (if \<not> isTime to (defaultValue c) then timeZero to
      else parseTime to (defaultValue c))"

subsection \<open>Type predicates\<close>

definition IsBool :: "container \<Rightarrow> bool" where
  "IsBool c = (fieldType c = ''bool'')"

definition IsFloat :: "container \<Rightarrow> bool" where
  "IsFloat c = (fieldType c = ''float64'')"

definition IsInt :: "container \<Rightarrow> bool" where
  "IsInt c = (fieldType c = ''int'')"

definition IsString :: "container \<Rightarrow> bool" where
  "IsString c = (fieldType c = ''string'')"

definition IsTime :: "container \<Rightarrow> bool" where
  "IsTime c = (fieldType c = ''time.time'')"

subsection \<open>Source accessors\<close>

text \<open>The environment is \<open>os.Getenv\<close>: the empty string for a variable that is not set.\<close>

definition EnvBool :: "container \<Rightarrow> (string \<Rightarrow> string) \<Rightarrow> bool \<times> bool" where
  "EnvBool c getenv =
     (let val = getenv (envName c)
      in if val \<noteq> []
         then (case ParseBool val of Some result \<Rightarrow> (result, True) | None \<Rightarrow> (False, False))
         else (False, False))"

definition EnvFloat :: "'f float64_ops \<Rightarrow> container \<Rightarrow> (string \<Rightarrow> string) \<Rightarrow> 'f \<times> bool" where
  "EnvFloat fo c getenv =
     (let val = getenv (envName c)
      in if val \<noteq> []
         then (case ParseFloat fo val of
                 Some result \<Rightarrow> (result, True)
               | None \<Rightarrow> (floatZero fo, False))
         else (floatZero fo, False))"

definition EnvInt :: "container \<Rightarrow> (string \<Rightarrow> string) \<Rightarrow> int \<times> bool" where
  "EnvInt c getenv =
     (let val = getenv (envName c)
      in if val \<noteq> []
         then (case Atoi val of Some result \<Rightarrow> (result, True) | None \<Rightarrow> (0, False))
         else (0, False))"

definition EnvString :: "container \<Rightarrow> (string \<Rightarrow> string) \<Rightarrow> string \<times> bool" where
  "EnvString c getenv =
     (let val = getenv (envName c)
      in if val \<noteq> [] then (val, True) else (val, False))"

definition EnvTime :: "'t time_ops \<Rightarrow> container \<Rightarrow> (string \<Rightarrow> string) \<Rightarrow> 't \<times> bool" where
  "EnvTime to c getenv =
     (let val = getenv (envName c)
      in if val \<noteq> [] then (parseTime to val, True) else (timeZero to, False))"

definition EnvFileBool :: "container \<Rightarrow> bool \<times> bool" where
  "EnvFileBool c =
     (case envFile c (envName c) of
        Some val \<Rightarrow>
          (case ParseBool val of Some result \<Rightarrow> (result, True) | None \<Rightarrow> (False, False))
      | None \<Rightarrow> (False, False))"

definition EnvFileFloat :: "'f float64_ops \<Rightarrow> container \<Rightarrow> 'f \<times> bool" where
  "EnvFileFloat fo c =
     (case envFile c (envName c) of
        Some val \<Rightarrow>
          (case ParseFloat fo val of
             Some result \<Rightarrow> (result, True)
           | None \<Rightarrow> (floatZero fo, False))
      | None \<Rightarrow> (floatZero fo, False))"

definition EnvFileInt :: "container \<Rightarrow> int \<times> bool" where
  "EnvFileInt c =
     (case envFile c (envName c) of
        Some val \<Rightarrow>
          (case Atoi val of Some result \<Rightarrow> (result, True) | None \<Rightarrow> (0, False))
      | None \<Rightarrow> (0, False))"

definition EnvFileString :: "container \<Rightarrow> string \<times> bool" where
  "EnvFileString c =
     (case envFile c (envName c) of
        Some val \<Rightarrow> (val, True)
      | None \<Rightarrow> ([], False))"

definition EnvFileTime :: "'t time_ops \<Rightarrow> container \<Rightarrow> 't \<times> bool" where
  "EnvFileTime to c =
     (case envFile c (envName c) of
        Some val \<Rightarrow> (parseTime to val, True)
      | None \<Rightarrow> (timeZero to, False))"

definition FlagBool :: "container \<Rightarrow> 'f FlagSet \<Rightarrow> bool \<times> bool" where
  "FlagBool c fs =
     (case boolValue c of
        Some p \<Rightarrow>
          if derefBool fs p \<noteq> defaultValueToBool c then (derefBool fs p, True)
          else (False, False)
      | None \<Rightarrow> (False, False))"

definition FlagFloat :: "'f float64_ops \<Rightarrow> container \<Rightarrow> 'f FlagSet \<Rightarrow> 'f \<times> bool" where
  "FlagFloat fo c fs =
     (case floatValue c of
        Some p \<Rightarrow>
          if floatNeq fo (derefFloat fo fs p) (defaultValueToFloat fo c)
          then (derefFloat fo fs p, True)
          else (floatZero fo, False)
      | None \<Rightarrow> (floatZero fo, False))"

definition FlagInt :: "container \<Rightarrow> 'f FlagSet \<Rightarrow> int \<times> bool" where
  "FlagInt c fs =
     (case intValue c of
        Some p \<Rightarrow>
          if derefInt fs p \<noteq> defaultValueToInt c then (derefInt fs p, True)
          else (0, False)
      | None \<Rightarrow> (0, False))"

definition FlagString :: "container \<Rightarrow> 'f FlagSet \<Rightarrow> string \<times> bool" where
  "FlagString c fs =
     (case stringValue c of
        Some p \<Rightarrow>
          if derefString fs p \<noteq> defaultValueToString c then (derefString fs p, True)
          else ([], False)
      | None \<Rightarrow> ([], False))"


subsection \<open>Setters\<close>

text \<open>
  A setter writes through \<open>fieldValue\<close>.  Reflection panics when that is the zero
  \<open>reflect.Value\<close> and when the field is not of the kind being set.
\<close>

definition SetConfigBool ::
  "container \<Rightarrow> bool \<Rightarrow> ('f, 't) structField list \<Rightarrow> panic + ('f, 't) structField list" where
  "SetConfigBool c v config =
     (case fieldValue c of
        None \<Rightarrow> Inl PanicReflect
      | Some i \<Rightarrow>
          if i < length config
          then (case sfValue (config ! i) of
                  VBool _ \<Rightarrow> Inr (config[i := (config ! i)\<lparr>sfValue := VBool v\<rparr>])
                | _ \<Rightarrow> Inl PanicReflect)
          else Inl PanicReflect)"

definition SetConfigFloat ::
  "container \<Rightarrow> 'f \<Rightarrow> ('f, 't) structField list \<Rightarrow> panic + ('f, 't) structField list" where
  "SetConfigFloat c v config =
     (case fieldValue c of
        None \<Rightarrow> Inl PanicReflect
      | Some i \<Rightarrow>
          if i < length config
          then (case sfValue (config ! i) of
                  VFloat _ \<Rightarrow> Inr (config[i := (config ! i)\<lparr>sfValue := VFloat v\<rparr>])
                | _ \<Rightarrow> Inl PanicReflect)
          else Inl PanicReflect)"

definition SetConfigInt ::
  "container \<Rightarrow> int \<Rightarrow> ('f, 't) structField list \<Rightarrow> panic + ('f, 't) structField list" where
  "SetConfigInt c v config =
     (case fieldValue c of
        None \<Rightarrow> Inl PanicReflect
      | Some i \<Rightarrow>
          if i < length config
          then (case sfValue (config ! i) of
                  VInt _ \<Rightarrow> Inr (config[i := (config ! i)\<lparr>sfValue := VInt v\<rparr>])
                | _ \<Rightarrow> Inl PanicReflect)
          else Inl PanicReflect)"

definition SetConfigString ::
  "container \<Rightarrow> string \<Rightarrow> ('f, 't) structField list \<Rightarrow> panic + ('f, 't) structField list" where
  "SetConfigString c v config =
     (case fieldValue c of
        None \<Rightarrow> Inl PanicReflect
      | Some i \<Rightarrow>
          if i < length config
          then (case sfValue (config ! i) of
                  VString _ \<Rightarrow> Inr (config[i := (config ! i)\<lparr>sfValue := VString v\<rparr>])
                | _ \<Rightarrow> Inl PanicReflect)
          else Inl PanicReflect)"

definition SetConfigTime ::
  "container \<Rightarrow> 't \<Rightarrow> ('f, 't) structField list \<Rightarrow> panic + ('f, 't) structField list" where
  "SetConfigTime c v config =
     (case fieldValue c of
        None \<Rightarrow> Inl PanicReflect
      | Some i \<Rightarrow>
          if i < length config
          then (case sfValue (config ! i) of
                  VTime _ \<Rightarrow> Inr (config[i := (config ! i)\<lparr>sfValue := VTime v\<rparr>])
                | _ \<Rightarrow> Inl PanicReflect)
          else Inl PanicReflect)"

text \<open>Sequencing of steps that may panic.\<close>

definition andThen :: "panic + 'a \<Rightarrow> ('a \<Rightarrow> panic + 'b) \<Rightarrow> panic + 'b" where
  "andThen r f = (case r of Inl p \<Rightarrow> Inl p | Inr x \<Rightarrow> f x)"

definition SetDefaultValueOnConfig ::
  "'f float64_ops \<Rightarrow> 't time_ops \<Rightarrow> container \<Rightarrow> ('f, 't) structField list
     \<Rightarrow> panic + ('f, 't) structField list" where
  "SetDefaultValueOnConfig fo to c config =
     andThen (if IsBool c then SetConfigBool c (defaultValueToBool c) config else Inr config)
       (\<lambda>config.
     andThen (if IsFloat c then SetConfigFloat c (defaultValueToFloat fo c) config
              else Inr config)
       (\<lambda>config.
     andThen (if IsInt c then SetConfigInt c (defaultValueToInt c) config else Inr config)
       (\<lambda>config.
     andThen (if IsString c then SetConfigString c (defaultValueToString c) config
              else Inr config)
       (\<lambda>config.
     if IsTime c then SetConfigTime c (defaultValueToTime to c) config else Inr config))))"

subsection \<open>Flag registration and construction\<close>

definition addFlag ::
  "'f float64_ops \<Rightarrow> container \<Rightarrow> 'f FlagSet \<Rightarrow> panic + (container \<times> 'f FlagSet)" where
  "addFlag fo c fs =
     andThen (if IsBool c
              then andThen (flag_Var fs (flagName c) (FBool (defaultValueToBool c)))
                     (\<lambda>fs. Inr (c\<lparr>boolValue := Some (flagName c)\<rparr>, fs))
              else Inr (c, fs))
       (\<lambda>(c, fs).
     andThen (if IsFloat c
              then andThen (flag_Var fs (flagName c) (FFloat (defaultValueToFloat fo c)))
                     (\<lambda>fs. Inr (c\<lparr>floatValue := Some (flagName c)\<rparr>, fs))
              else Inr (c, fs))
       (\<lambda>(c, fs).
     andThen (if IsInt c
              then andThen (flag_Var fs (flagName c) (FInt (defaultValueToInt c)))
                     (\<lambda>fs. Inr (c\<lparr>intValue := Some (flagName c)\<rparr>, fs))
              else Inr (c, fs))
       (\<lambda>(c, fs).
     andThen (if IsString c
              then andThen (flag_Var fs (flagName c) (FString (defaultValueToString c)))
                     (\<lambda>fs. Inr (c\<lparr>stringValue := Some (flagName c)\<rparr>, fs))
              else Inr (c, fs))
       (\<lambda>(c, fs).
     if IsTime c
     then andThen (flag_Var fs (flagName c) (FString (defaultValueToString c)))
            (\<lambda>fs. Inr (c\<lparr>timeValue := Some (flagName c)\<rparr>, fs))
     else Inr (c, fs)))))"

text \<open>
  \<open>New\<close> returns the container and an error; it also writes the struct and, unless the
  flags are parsed already, defines a flag.  The result here is the container, the
  error (\<open>None\<close> is nil), the struct and the flag set afterwards.  \<open>t.Field(index)\<close>
  panics for an index that is no field of the struct.
\<close>

definition New ::
  "'f float64_ops \<Rightarrow> 't time_ops \<Rightarrow> ('f, 't) structField list \<Rightarrow> nat
     \<Rightarrow> (string \<rightharpoonup> string) \<Rightarrow> 'f FlagSet
     \<Rightarrow> panic + (container \<times> error option \<times> ('f, 't) structField list \<times> 'f FlagSet)" where
  "New fo to config index envFile' fs =
     (if length config \<le> index then Inl PanicReflect
      else
        let field = config ! index;
            result = \<lparr>boolValue = None, defaultValue = [], description = [],
                        envFile = envFile', envName = [], fieldName = sfName field,
                        fieldType = ToLower (sfType field), fieldValue = None,
                        flagName = [], floatValue = None, intValue = None,
                        stringValue = None, timeValue = None\<rparr>;
            canSet = sfExported field
        in if \<not> canSet then Inr (result, Some ErrCantSet, config, fs)
           else
             (case sfTag field TagFlagName of
                None \<Rightarrow> Inr (result, Some ErrNoFlagName, config, fs)
              | Some name \<Rightarrow>
                  let result = result\<lparr>flagName := name,
                                       fieldValue := Some index,
                                       envName := tagGet (sfTag field) TagEnvName,
                                       defaultValue := tagGet (sfTag field) TagDefaultValue,
                                       description := tagGet (sfTag field) TagDescription\<rparr>
                  in andThen (if \<not> parsed fs then addFlag fo result fs else Inr (result, fs))
                       (\<lambda>(result, fs).
                     andThen (SetDefaultValueOnConfig fo to result config)
                       (\<lambda>config. Inr (result, None, config, fs)))))"

section \<open>The entry point (package configinator)\<close>

text \<open>
  The first loop of \<open>Behold\<close>: one container per field, in declaration order; the
  error that \<open>New\<close> returns is dropped.
\<close>

fun newContainers ::
  "'f float64_ops \<Rightarrow> 't time_ops \<Rightarrow> nat list \<Rightarrow> (string \<rightharpoonup> string)
     \<Rightarrow> ('f, 't) structField list \<Rightarrow> 'f FlagSet
     \<Rightarrow> panic + (container list \<times> ('f, 't) structField list \<times> 'f FlagSet)" where
  "newContainers fo to [] envFile' config fs = Inr ([], config, fs)"
| "newContainers fo to (index # rest) envFile' config fs =
     andThen (New fo to config index envFile' fs)
       (\<lambda>(c, err, config, fs).
     andThen (newContainers fo to rest envFile' config fs)
       (\<lambda>(cs, config, fs). Inr (c # cs, config, fs)))"

text \<open>The body of the second loop, for one container.\<close>

definition resolveBool ::
  "container \<Rightarrow> (string \<Rightarrow> string) \<Rightarrow> 'f FlagSet \<Rightarrow> ('f, 't) structField list
     \<Rightarrow> panic + ('f, 't) structField list" where
  "resolveBool c getenv fs config =
     andThen (case EnvBool c getenv of
                (v, ok) \<Rightarrow> if ok then SetConfigBool c v config else Inr config)
       (\<lambda>config.
     andThen (case EnvFileBool c of
                (v, ok) \<Rightarrow> if ok then SetConfigBool c v config else Inr config)
       (\<lambda>config.
     case FlagBool c fs of
       (v, ok) \<Rightarrow> if ok then SetConfigBool c v config else Inr config))"

definition resolveFloat ::
  "'f float64_ops \<Rightarrow> container \<Rightarrow> (string \<Rightarrow> string) \<Rightarrow> 'f FlagSet
     \<Rightarrow> ('f, 't) structField list \<Rightarrow> panic + ('f, 't) structField list" where
  "resolveFloat fo c getenv fs config =
     andThen (case EnvFloat fo c getenv of
                (v, ok) \<Rightarrow> if ok then SetConfigFloat c v config else Inr config)
       (\<lambda>config.
     andThen (case EnvFileFloat fo c of
                (v, ok) \<Rightarrow> if ok then SetConfigFloat c v config else Inr config)
       (\<lambda>config.
     case FlagFloat fo c fs of
       (v, ok) \<Rightarrow> if ok then SetConfigFloat c v config else Inr config))"

definition resolveInt ::
  "container \<Rightarrow> (string \<Rightarrow> string) \<Rightarrow> 'f FlagSet \<Rightarrow> ('f, 't) structField list
     \<Rightarrow> panic + ('f, 't) structField list" where
  "resolveInt c getenv fs config =
     andThen (case EnvInt c getenv of
                (v, ok) \<Rightarrow> if ok then SetConfigInt c v config else Inr config)
       (\<lambda>config.
     andThen (case EnvFileInt c of
                (v, ok) \<Rightarrow> if ok then SetConfigInt c v config else Inr config)
       (\<lambda>config.
     case FlagInt c fs of
       (v, ok) \<Rightarrow> if ok then SetConfigInt c v config else Inr config))"

definition resolveString ::
  "container \<Rightarrow> (string \<Rightarrow> string) \<Rightarrow> 'f FlagSet \<Rightarrow> ('f, 't) structField list
     \<Rightarrow> panic + ('f, 't) structField list" where
  "resolveString c getenv fs config =
     andThen (case EnvString c getenv of
                (v, ok) \<Rightarrow> if ok then SetConfigString c v config else Inr config)
       (\<lambda>config.
     andThen (case EnvFileString c of
                (v, ok) \<Rightarrow> if ok then SetConfigString c v config else Inr config)
       (\<lambda>config.
     case FlagString c fs of
       (v, ok) \<Rightarrow> if ok then SetConfigString c v config else Inr config))"

definition resolveField ::
  "'f float64_ops \<Rightarrow> container \<Rightarrow> (string \<Rightarrow> string) \<Rightarrow> 'f FlagSet
     \<Rightarrow> ('f, 't) structField list \<Rightarrow> panic + ('f, 't) structField list" where
  "resolveField fo c getenv fs config =
     andThen (if IsBool c then resolveBool c getenv fs config else Inr config)
       (\<lambda>config.
     andThen (if IsFloat c then resolveFloat fo c getenv fs config else Inr config)
       (\<lambda>config.
     andThen (if IsInt c then resolveInt c getenv fs config else Inr config)
       (\<lambda>config.
     if IsString c then resolveString c getenv fs config else Inr config)))"

fun resolveAll ::
  "'f float64_ops \<Rightarrow> container list \<Rightarrow> (string \<Rightarrow> string) \<Rightarrow> 'f FlagSet
     \<Rightarrow> ('f, 't) structField list \<Rightarrow> panic + ('f, 't) structField list" where
  "resolveAll fo [] getenv fs config = Inr config"
| "resolveAll fo (c # cs) getenv fs config =
     andThen (resolveField fo c getenv fs config)
       (\<lambda>config. resolveAll fo cs getenv fs config)"

text \<open>
  \<open>Behold\<close>.  Its surroundings are arguments: the text of the file \<open>.env\<close> (\<open>None\<close> when
  there is no such file), the environment, the command line after the program name,
  the struct, and the flag set as the process has it before the call.  The result is
  the struct and the flag set afterwards, or the panic (or exit) that ends the call.
\<close>

definition Behold ::
  "'f float64_ops \<Rightarrow> 't time_ops \<Rightarrow> string option \<Rightarrow> (string \<Rightarrow> string) \<Rightarrow> 'f arg list
     \<Rightarrow> ('f, 't) structField list \<Rightarrow> 'f FlagSet
     \<Rightarrow> panic + (('f, 't) structField list \<times> 'f FlagSet)" where
  "Behold fo to dotenv getenv args config fs =
     andThen (case dotenv of
                None \<Rightarrow> Inr Map.empty
              | Some text \<Rightarrow>
                  (case parse text of
                     (m, None) \<Rightarrow> Inr m
                   | (m, Some err) \<Rightarrow> Inl (PanicError err)))
       (\<lambda>envFile'.
     andThen (newContainers fo to [0..<length config] envFile' config fs)
       (\<lambda>(containers, config, fs).
     andThen (if args \<noteq> [] then flag_Parse args fs else Inr fs)
       (\<lambda>fs.
     andThen (resolveAll fo containers getenv fs config)
       (\<lambda>config. Inr (config, fs)))))"

text \<open>
  A stand-in for \<open>float64\<close> in examples whose struct has no field of that type, where
  none of the three operations is ever called.
\<close>

definition noFloat :: "unit float64_ops" where
  "noFloat = \<lparr>ParseFloat = (\<lambda>s. None), floatZero = (), floatNeq = (\<lambda>a b. False)\<rparr>"

section \<open>Example structs\<close>

text \<open>
  \<open>Port int `flag:"port" env:"HOST_PORT" default:"8080"`\<close>,
  \<open>When time.Time `flag:"when" env:"WHEN" default:"2006-01-02"`\<close> and
  \<open>Host string `flag:"host" env:"HOST" default:"localhost:8080"`\<close>, in a process that
  has defined no flag yet.
\<close>

definition portField :: "(unit, Time) structField" where
  "portField =
     \<lparr>sfName = ''Port'', sfType = ''int'',
      sfTag = [''flag'' \<mapsto> ''port'', ''env'' \<mapsto> ''HOST_PORT'', ''default'' \<mapsto> ''8080''],
      sfExported = True, sfValue = VInt 0\<rparr>"

definition whenField :: "(unit, Time) structField" where
  "whenField =
     \<lparr>sfName = ''When'', sfType = ''time.Time'',
      sfTag = [''flag'' \<mapsto> ''when'', ''env'' \<mapsto> ''WHEN'', ''default'' \<mapsto> ''2006-01-02''],
      sfExported = True, sfValue = VTime zeroTime\<rparr>"

definition hostField :: "(unit, Time) structField" where
  "hostField =
     \<lparr>sfName = ''Host'', sfType = ''string'',
      sfTag = [''flag'' \<mapsto> ''host'', ''env'' \<mapsto> ''HOST'', ''default'' \<mapsto> ''localhost:8080''],
      sfExported = True, sfValue = VString []\<rparr>"

definition noFlags :: "unit FlagSet" where
  "noFlags = \<lparr>formal = Map.empty, parsed = False\<rparr>"

text \<open>
  The flag set once \<open>New\<close> has defined the flag of \<open>Port\<close> (or of \<open>When\<close>), with the
  flag's current value and whether the command line has been parsed.
\<close>

definition portFlags :: "int \<Rightarrow> bool \<Rightarrow> unit FlagSet" where
  "portFlags v p = \<lparr>formal = [''port'' \<mapsto> FInt v], parsed = p\<rparr>"

definition whenFlags :: "string \<Rightarrow> bool \<Rightarrow> unit FlagSet" where
  "whenFlags v p = \<lparr>formal = [''when'' \<mapsto> FString v], parsed = p\<rparr>"

text \<open>2006-01-02T00:00:00Z and 2006-01-02T15:04:05Z.\<close>

definition jan2Midnight :: Time where
  "jan2Midnight = DateUTC 2006 1 2 0 0 0 0"

definition jan2Afternoon :: Time where
  "jan2Afternoon = DateUTC 2006 1 2 15 4 5 0"

text \<open>An environment with one variable set.\<close>

definition oneVar :: "string \<Rightarrow> string \<Rightarrow> string \<Rightarrow> string" where
  "oneVar name val n = (if n = name then val else [])"

text \<open>The containers that \<open>New\<close> builds for these fields.\<close>

definition hostContainer :: container where
  "hostContainer =
     \<lparr>boolValue = None, defaultValue = ''localhost:8080'', description = [],
      envFile = Map.empty, envName = ''HOST'', fieldName = ''Host'',
      fieldType = ''string'', fieldValue = Some 0, flagName = ''host'',
      floatValue = None, intValue = None, stringValue = Some ''host'', timeValue = None\<rparr>"

definition portContainer :: container where
  "portContainer =
     \<lparr>boolValue = None, defaultValue = ''8080'', description = [],
      envFile = Map.empty, envName = ''HOST_PORT'', fieldName = ''Port'',
      fieldType = ''int'', fieldValue = Some 0, flagName = ''port'',
      floatValue = None, intValue = Some ''port'', stringValue = None, timeValue = None\<rparr>"

definition whenContainer :: container where
  "whenContainer =
     \<lparr>boolValue = None, defaultValue = ''2006-01-02'', description = [],
      envFile = Map.empty, envName = ''WHEN'', fieldName = ''When'',
      fieldType = ''time.time'', fieldValue = Some 0, flagName = ''when'',
      floatValue = None, intValue = None, stringValue = None, timeValue = Some ''when''\<rparr>"

section \<open>Auxiliary definitions\<close>

text \<open>The struct with the value of field \<open>i\<close> replaced: what a successful setter returns.\<close>

definition setField ::
  "nat \<Rightarrow> ('f, 't) fieldVal \<Rightarrow> ('f, 't) structField list \<Rightarrow> ('f, 't) structField list" where
  "setField i v config = config[i := (config ! i)\<lparr>sfValue := v\<rparr>]"

text \<open>Used in proofs only: a function applied to the first element of a list.\<close>

fun mapHead :: "('a \<Rightarrow> 'a) \<Rightarrow> 'a list \<Rightarrow> 'a list" where
  "mapHead f [] = []"
| "mapHead f (x # xs) = f x # xs"

section \<open>Properties of the env-file parser\<close>

lemma parseLines_single:
  "\<not> isIgnoredLine line \<Longrightarrow> parseLine line = Inr (k, v) \<Longrightarrow>
   parseLines result [line] = (result(k \<mapsto> v), None)"
  by simp

lemma parseLine_trailing_comment:
  "parseLine ''KEY=value # comment'' = Inr (''KEY'', ''value'')"
  by code_simp

lemma parseLine_quoted_hash:
  "parseLine (''KEY='' @ [dquote] @ ''a#b'' @ [dquote]) = Inr (''KEY'', ''a#b'')"
  by code_simp

text \<open>
  Claim C6.  The line \<open>KEY=value # comment\<close> parses to the entry \<open>KEY\<close> \<open>\<mapsto>\<close> \<open>value\<close>: the
  trailing comment is stripped.  The line \<open>KEY="a#b"\<close> parses to the entry \<open>KEY\<close> \<open>\<mapsto>\<close> \<open>a#b\<close>:
  the \<open>#\<close> inside the quotes does not start a comment.  Both hold for \<open>parseLine\<close> and
  for \<open>parse\<close> on a file that holds just that line.
\<close>

theorem comment_stripped_outside_quotes_only:
  "parseLine ''KEY=value # comment'' = Inr (''KEY'', ''value'')
   \<and> parseLine (''KEY='' @ [dquote] @ ''a#b'' @ [dquote]) = Inr (''KEY'', ''a#b'')
   \<and> parse ''KEY=value # comment'' = ([''KEY'' \<mapsto> ''value''], None)
   \<and> parse (''KEY='' @ [dquote] @ ''a#b'' @ [dquote]) = ([''KEY'' \<mapsto> ''a#b''], None)"
proof -
  have s1: "scanLines ''KEY=value # comment'' = Inr [''KEY=value # comment'']"
    by (simp add: scanLines_def dropCR_def)
  have i1: "\<not> isIgnoredLine ''KEY=value # comment''"
    by code_simp
  have p1: "parse ''KEY=value # comment'' = ([''KEY'' \<mapsto> ''value''], None)"
    unfolding parse_def s1
    using parseLines_single [OF i1 parseLine_trailing_comment] by simp
  have s2: "scanLines (''KEY='' @ [dquote] @ ''a#b'' @ [dquote])
              = Inr [''KEY='' @ [dquote] @ ''a#b'' @ [dquote]]"
    by (simp add: scanLines_def dropCR_def)
  have i2: "\<not> isIgnoredLine (''KEY='' @ [dquote] @ ''a#b'' @ [dquote])"
    by code_simp
  have p2: "parse (''KEY='' @ [dquote] @ ''a#b'' @ [dquote]) = ([''KEY'' \<mapsto> ''a#b''], None)"
    unfolding parse_def s2
    using parseLines_single [OF i2 parseLine_quoted_hash] by simp
  show ?thesis
    using parseLine_trailing_comment parseLine_quoted_hash p1 p2 by blast
qed

subsection \<open>Values: quotes and escapes\<close>

lemma dropWhile_replicate_eq: "dropWhile (\<lambda>y. y = c) (replicate n c @ zs) = dropWhile (\<lambda>y. y = c) zs"
  by (induction n) simp_all

lemma Trim_padded:
  assumes "x \<noteq> []" "hd x \<noteq> c" "last x \<noteq> c"
  shows "Trim (replicate m c @ x @ replicate n c) c = x"
proof -
  have a: "dropWhile (\<lambda>y. y = c) (replicate m c @ x @ replicate n c) = x @ replicate n c"
    using assms by (cases x) (simp_all add: dropWhile_replicate_eq)
  have b: "dropWhile (\<lambda>y. y = c) (replicate n c @ rev x) = rev x"
    using assms by (cases x rule: rev_cases) (simp_all add: dropWhile_replicate_eq)
  show ?thesis by (simp add: Trim_def a b)
qed

lemma quotedBy_wrap: "quotedBy q (q # s @ [q]) = (LF \<notin> set s)"
  by (simp add: quotedBy_def)

lemma quotedBy_other: "q \<noteq> q' \<Longrightarrow> \<not> quotedBy q' (q # s @ [q])"
  by (simp add: quotedBy_def)

lemma parseValue_double_quoted:
  assumes "LF \<notin> set s"
  shows "parseValue (replicate m space @ dquote # s @ dquote # replicate n space)
           = unescapeChars (escapeReplace s)"
proof -
  have t: "Trim (replicate m space @ (dquote # s @ [dquote]) @ replicate n space) space
             = dquote # s @ [dquote]"
    by (rule Trim_padded) simp_all
  show ?thesis
    using assms t
    by (simp add: parseValue_def singleQuotesRegex_def doubleQuotesRegex_def
          quotedBy_wrap quotedBy_other)
qed

lemma parseValue_single_quoted:
  assumes "LF \<notin> set s"
  shows "parseValue (replicate m space @ squote # s @ squote # replicate n space) = s"
proof -
  have t: "Trim (replicate m space @ (squote # s @ [squote]) @ replicate n space) space
             = squote # s @ [squote]"
    by (rule Trim_padded) simp_all
  show ?thesis
    using assms t
    by (simp add: parseValue_def singleQuotesRegex_def doubleQuotesRegex_def
          quotedBy_wrap quotedBy_other)
qed

lemma parseValue_unquoted:
  "\<not> singleQuotesRegex (Trim v space) \<Longrightarrow> \<not> doubleQuotesRegex (Trim v space) \<Longrightarrow>
   parseValue v = Trim v space"
  by (simp add: parseValue_def Let_def)

lemma parseLine_double_quoted_newline:
  "parseLine (''KEY='' @ [dquote] @ ''line1'' @ [bslash] @ ''nline2'' @ [dquote])
     = Inr (''KEY'', ''line1'' @ [LF] @ ''line2'')"
  by code_simp

lemma parseLine_single_quoted_newline:
  "parseLine (''KEY='' @ [squote] @ ''line1'' @ [bslash] @ ''nline2'' @ [squote])
     = Inr (''KEY'', ''line1'' @ [bslash] @ ''nline2'')"
  by code_simp

text \<open>
  Claim C7.  A value in double quotes (and without a line feed, as every value that
  comes from a line of the file is) parses to its content after the two passes: in the
  first, read left to right, a backslash with \<open>n\<close> becomes a line feed, a backslash with
  \<open>r\<close> a carriage return, and a backslash with any other character stays as it is; in
  the second, a backslash before a character other than \<open>$\<close> is dropped and the
  character kept, while a backslash before \<open>$\<close> stays.  A value in single quotes
  parses to its content unchanged, and a value that neither pattern matches parses to
  itself with the surrounding spaces removed.  So \<open>KEY='line1\nline2'\<close> keeps the
  backslash and the \<open>n\<close>, and \<open>KEY="line1\nline2"\<close> holds a line feed.
\<close>

theorem escapes_only_in_double_quotes:
  "(LF \<notin> set s \<longrightarrow>
      parseValue (replicate m space @ dquote # s @ dquote # replicate n space)
        = unescapeChars (escapeReplace s))
   \<and> (LF \<notin> set s \<longrightarrow>
      parseValue (replicate m space @ squote # s @ squote # replicate n space) = s)
   \<and> (\<not> singleQuotesRegex (Trim v space) \<and> \<not> doubleQuotesRegex (Trim v space) \<longrightarrow>
      parseValue v = Trim v space)
   \<and> escapeReplace (bslash # CHR ''n'' # r) = LF # escapeReplace r
   \<and> escapeReplace (bslash # CHR ''r'' # r) = CR # escapeReplace r
   \<and> (c \<noteq> CHR ''n'' \<and> c \<noteq> CHR ''r'' \<and> c \<noteq> LF \<longrightarrow>
      escapeReplace (bslash # c # r) = bslash # c # escapeReplace r)
   \<and> (c \<noteq> dollar \<longrightarrow> unescapeChars (bslash # c # r) = c # unescapeChars r)
   \<and> unescapeChars (bslash # dollar # r) = bslash # unescapeChars (dollar # r)
   \<and> (b \<noteq> bslash \<longrightarrow>
      escapeReplace (b # r) = b # escapeReplace r
      \<and> unescapeChars (b # r) = b # unescapeChars r)
   \<and> parseLine (''KEY='' @ [squote] @ ''line1'' @ [bslash] @ ''nline2'' @ [squote])
        = Inr (''KEY'', ''line1'' @ [bslash] @ ''nline2'')
   \<and> parseLine (''KEY='' @ [dquote] @ ''line1'' @ [bslash] @ ''nline2'' @ [dquote])
        = Inr (''KEY'', ''line1'' @ [LF] @ ''line2'')"
proof -
  have e1: "escapeReplace (bslash # CHR ''n'' # r) = LF # escapeReplace r"
    by (simp add: expandMatch_def)
  have e2: "escapeReplace (bslash # CHR ''r'' # r) = CR # escapeReplace r"
    by (simp add: expandMatch_def)
  have e3: "c \<noteq> CHR ''n'' \<and> c \<noteq> CHR ''r'' \<and> c \<noteq> LF \<longrightarrow>
      escapeReplace (bslash # c # r) = bslash # c # escapeReplace r"
    by (simp add: expandMatch_def)
  have u1: "c \<noteq> dollar \<longrightarrow> unescapeChars (bslash # c # r) = c # unescapeChars r"
    by simp
  have u2: "unescapeChars (bslash # dollar # r) = bslash # unescapeChars (dollar # r)"
    by simp
  have o: "b \<noteq> bslash \<longrightarrow>
      escapeReplace (b # r) = b # escapeReplace r \<and> unescapeChars (b # r) = b # unescapeChars r"
    by (cases r) simp_all
  show ?thesis
    using parseValue_double_quoted [of s m n] parseValue_single_quoted [of s m n]
      parseValue_unquoted [of v] e1 e2 e3 u1 u2 o
      parseLine_single_quoted_newline parseLine_double_quoted_newline
    by blast
qed

theorem escapes_only_in_double_quotes_witness:
  "LF \<notin> set (''a'' @ [bslash] @ ''nb'')
   \<and> parseValue (replicate 1 space @ dquote # (''a'' @ [bslash] @ ''nb'') @ dquote # replicate 2 space)
        = ''a'' @ [LF] @ ''b''
   \<and> parseValue (replicate 1 space @ squote # (''a'' @ [bslash] @ ''nb'') @ squote # replicate 2 space)
        = ''a'' @ [bslash] @ ''nb''
   \<and> \<not> singleQuotesRegex (Trim '' x y '' space) \<and> \<not> doubleQuotesRegex (Trim '' x y '' space)
   \<and> parseValue '' x y '' = ''x y''
   \<and> escapeReplace [bslash, CHR ''t''] = [bslash, CHR ''t'']
   \<and> unescapeChars [bslash, CHR ''t''] = ''t''
   \<and> escapeReplace ''t'' = ''t''"
  using escapes_only_in_double_quotes
    [of "''a'' @ [bslash] @ ''nb''" 1 2 "'' x y ''" "[]" "CHR ''t''" "CHR ''t''"]
  by (simp add: expandMatch_def Trim_def singleQuotesRegex_def doubleQuotesRegex_def quotedBy_def)

subsection \<open>Keys: the export prefix\<close>

lemma Split_not_Nil: "Split s sep \<noteq> []"
  by (induction s) (auto split: list.splits)

lemma Split_prepend:
  "sep \<notin> set pre \<Longrightarrow>
   Split (pre @ l) sep = (pre @ hd (Split l sep)) # tl (Split l sep)"
proof (induction pre)
  case Nil
  then show ?case using Split_not_Nil [of l sep] by simp
next
  case (Cons x pre)
  then show ?case by auto
qed

lemma hd_Split: "hd (Split l sep) = takeWhile (\<lambda>c. c \<noteq> sep) l"
  by (induction l) (auto split: list.splits simp: Split_not_Nil)

lemma mapHead_append: "keep \<noteq> [] \<Longrightarrow> mapHead f keep @ ys = mapHead f (keep @ ys)"
  by (cases keep) simp_all

lemma mapHead_eq_Nil: "(mapHead f keep = []) = (keep = [])"
  by (cases keep) simp_all

lemma keepParts_mapHead:
  "keep \<noteq> [] \<Longrightarrow>
   keepParts inQuotes (mapHead f keep) parts = mapHead f (keepParts inQuotes keep parts)"
proof (induction parts arbitrary: inQuotes keep)
  case Nil
  then show ?case by simp
next
  case (Cons part parts)
  show ?case
    using Cons.IH [of "keep @ [part]"] Cons.IH [of keep] Cons.prems
    by (simp add: Let_def mapHead_append mapHead_eq_Nil)
qed

lemma keepParts_prefix: "prefix keep (keepParts inQuotes keep parts)"
proof (induction parts arbitrary: inQuotes keep)
  case Nil
  then show ?case by simp
next
  case (Cons part parts)
  have "prefix keep (keep @ [part])" by simp
  then show ?case
    using Cons.IH [of "keep @ [part]"] Cons.IH [of keep]
    by (auto simp: Let_def dest: append_prefixD)
qed


lemma Join_mapHead:
  "ks \<noteq> [] \<Longrightarrow> Join (mapHead ((@) pre) ks) sep = pre @ Join ks sep"
  by (induction ks sep rule: Join.induct) simp_all

lemma Count_append: "Count (pre @ p) q = Count pre q + Count p q"
  by (induction pre) (simp_all add: Count_def)

lemma Count_notin: "q \<notin> set pre \<Longrightarrow> Count pre q = 0"
  by (induction pre) (auto simp: Count_def)

lemma keepParts_first:
  "keepParts False [] (p # ps) = p # tl (keepParts False [] (p # ps))"
proof -
  have "prefix [p] (keepParts False [] (p # ps))"
    using keepParts_prefix [of "[p]" _ ps] by (simp add: Let_def)
  then show ?thesis by (auto simp: prefix_def simp del: keepParts.simps)
qed

lemma keepParts_prepend:
  assumes "dquote \<notin> set pre" "squote \<notin> set pre"
  shows "keepParts False [] ((pre @ p) # ps) = mapHead ((@) pre) (keepParts False [] (p # ps))"
proof -
  have c: "Count (pre @ p) dquote = Count p dquote" "Count (pre @ p) squote = Count p squote"
    using assms by (simp_all add: Count_append Count_notin)
  have "keepParts False [] ((pre @ p) # ps)
          = keepParts (Count p dquote = 1 \<or> Count p squote = 1) (mapHead ((@) pre) [p]) ps"
    by (simp add: Let_def c)
  also have "\<dots> = mapHead ((@) pre) (keepParts (Count p dquote = 1 \<or> Count p squote = 1) [p] ps)"
    by (rule keepParts_mapHead) simp
  also have "\<dots> = mapHead ((@) pre) (keepParts False [] (p # ps))"
    by (simp add: Let_def)
  finally show ?thesis .
qed

lemma stripComment_prepend:
  assumes "hash \<notin> set pre" "dquote \<notin> set pre" "squote \<notin> set pre"
  shows "stripComment (pre @ l) = pre @ stripComment l"
proof (cases "hash \<in> set l")
  case False
  then show ?thesis using assms by (simp add: stripComment_def)
next
  case True
  obtain p ps where sp: "Split l hash = p # ps"
    using Split_not_Nil [of l hash] by (cases "Split l hash") auto
  have k: "keepParts False [] (p # ps) \<noteq> []"
    using keepParts_first [of p ps] by (metis list.distinct(1))
  have "stripComment (pre @ l) = Join (keepParts False [] ((pre @ p) # ps)) [hash]"
    using True assms Split_prepend [of hash pre l] by (simp add: stripComment_def sp)
  also have "\<dots> = pre @ Join (keepParts False [] (p # ps)) [hash]"
    using keepParts_prepend [OF assms(2,3)] Join_mapHead [OF k] by simp
  finally show ?thesis using True by (simp add: stripComment_def sp)
qed

lemma SplitN2_prepend:
  "sep \<notin> set pre \<Longrightarrow>
   SplitN2 (pre @ l) sep = map_option (\<lambda>(k, v). (pre @ k, v)) (SplitN2 l sep)"
  by (induction pre) (auto simp: SplitN2_def)


lemma leadingSpace_space: "leadingSpace (space # k) = 1"
  by (simp add: leadingSpace_def spaceRunes_def HasPrefix_def)

lemma TrimSpace_space: "TrimSpace (space # k) = TrimSpace k"
  by (simp add: TrimSpace_def TrimLeftSpace_def leadingSpace_space)

lemma prefix_takeWhileD: "prefix e (takeWhile P xs) \<Longrightarrow> prefix e xs"
  by (metis prefix_def append.assoc takeWhile_dropWhile_id)

lemma prefix_Join_head:
  assumes "prefix e (Join (p # rest) [sep])" "sep \<notin> set e"
  shows "prefix e p"
proof (cases rest)
  case Nil
  then show ?thesis using assms by simp
next
  case (Cons q qs)
  then have "prefix e (p @ sep # Join (q # qs) [sep])" using assms by simp
  then show ?thesis
    using assms(2) by (auto simp: prefix_append prefix_Cons)
qed

lemma prefix_stripCommentD:
  assumes "prefix e (stripComment l)" "hash \<notin> set e"
  shows "prefix e l"
proof (cases "hash \<in> set l")
  case False
  then show ?thesis using assms by (simp add: stripComment_def)
next
  case True
  obtain p ps where sp: "Split l hash = p # ps"
    using Split_not_Nil [of l hash] by (cases "Split l hash") auto
  have p: "p = takeWhile (\<lambda>c. c \<noteq> hash) l"
    using hd_Split [of l hash] sp by simp
  have "prefix e (Join (p # tl (keepParts False [] (p # ps))) [hash])"
    using assms(1) True keepParts_first [of p ps] by (simp add: stripComment_def sp)
  then have "prefix e p" using assms(2) by (rule prefix_Join_head)
  then show ?thesis unfolding p by (rule prefix_takeWhileD)
qed

lemma parseLine_export:
  assumes "\<not> HasPrefix l ''export''"
  shows "(parseLine (''export '' @ l) = Inr kv) = (parseLine l = Inr kv)"
proof (cases "SplitN2 (stripComment l) equals")
  case None
  have "stripComment (''export '' @ l) = ''export '' @ stripComment l"
    by (rule stripComment_prepend) simp_all
  moreover have "SplitN2 (''export '' @ stripComment l) equals = None"
    using None SplitN2_prepend [of equals "''export ''" "stripComment l"] by simp
  ultimately show ?thesis using None by (simp add: parseLine_def)
next
  case (Some kv')
  obtain k v where kv': "kv' = (k, v)" by (cases kv')
  have s1: "stripComment (''export '' @ l) = ''export '' @ stripComment l"
    by (rule stripComment_prepend) simp_all
  have s2: "SplitN2 (''export '' @ stripComment l) equals = Some (''export '' @ k, v)"
    using Some kv' SplitN2_prepend [of equals "''export ''" "stripComment l"] by simp
  have k: "k = takeWhile (\<lambda>c. c \<noteq> equals) (stripComment l)"
    using Some kv' by (simp add: SplitN2_def split: if_splits)
  have nk: "\<not> HasPrefix k ''export''"
  proof
    assume "HasPrefix k ''export''"
    then have "prefix ''export'' (stripComment l)"
      unfolding k HasPrefix_def by (rule prefix_takeWhileD)
    then have "prefix ''export'' l" by (rule prefix_stripCommentD) simp
    then show False using assms by (simp add: HasPrefix_def)
  qed
  have l: "l \<noteq> []" using Some by (auto simp: stripComment_def SplitN2_def)
  have key: "(if HasPrefix (''export '' @ k) ''export''
              then TrimPrefix (''export '' @ k) ''export'' else ''export '' @ k) = space # k"
    by (simp add: HasPrefix_def TrimPrefix_def)
  have left: "parseLine (''export '' @ l) = Inr (TrimSpace k, parseValue v)"
    unfolding parseLine_def s1 Let_def s2 option.case prod.case key TrimSpace_space
    by simp
  have right: "parseLine l = Inr (TrimSpace k, parseValue v)"
    using Some kv' nk l by (simp add: parseLine_def)
  show ?thesis by (simp only: left right)
qed

lemma prefix_before_sep:
  assumes "prefix e (K @ sep # V)" "sep \<notin> set e"
  shows "prefix e K"
  using assms by (auto simp: prefix_append prefix_Cons)

text \<open>
  Claim C9, as the code has it.  For every key \<open>K\<close> that does not itself begin with the
  six letters \<open>export\<close> and every value \<open>V\<close>, the line \<open>export K=V\<close> yields the same
  key/value entry as the line \<open>K=V\<close>, and fails when that one fails.  (The errors may
  differ: the message of a line without \<open>=\<close> quotes the line.)
\<close>


theorem export_prefix_ignored:
  assumes "\<not> HasPrefix K ''export''"
  shows "(parseLine (''export '' @ K @ ''='' @ V) = Inr kv) = (parseLine (K @ ''='' @ V) = Inr kv)"
proof -
  have "\<not> HasPrefix (K @ ''='' @ V) ''export''"
  proof
    assume "HasPrefix (K @ ''='' @ V) ''export''"
    then have "prefix ''export'' (K @ equals # V)" by (simp add: HasPrefix_def)
    then have "prefix ''export'' K" by (rule prefix_before_sep) simp
    then show False using assms by (simp add: HasPrefix_def)
  qed
  then show ?thesis by (rule parseLine_export)
qed


theorem export_prefix_ignored_witness:
  "\<not> HasPrefix ''PORT'' ''export''
   \<and> parseLine (''export '' @ ''PORT'' @ ''='' @ ''80'') = Inr (''PORT'', ''80'')
   \<and> parseLine (''PORT'' @ ''='' @ ''80'') = Inr (''PORT'', ''80'')"
proof -
  have h: "\<not> HasPrefix ''PORT'' ''export''" by (simp add: HasPrefix_def)
  have p: "parseLine (''PORT'' @ ''='' @ ''80'') = Inr (''PORT'', ''80'')" by code_simp
  show ?thesis
    using h p export_prefix_ignored [OF h, of "''80''" "(''PORT'', ''80'')"] by simp
qed

text \<open>
  Claim C9 as stated fails for a key that begins with \<open>export\<close>: the parser strips
  these six letters from any key, so \<open>exportX=1\<close> defines \<open>X\<close>, while
  \<open>export exportX=1\<close> defines \<open>exportX\<close>.
\<close>

theorem export_prefix_counterexample:
  "parseLine (''export '' @ ''exportX'' @ ''='' @ ''1'') = Inr (''exportX'', ''1'')
   \<and> parseLine (''exportX'' @ ''='' @ ''1'') = Inr (''X'', ''1'')"
  by code_simp

subsection \<open>Keys: what every key of the mapping satisfies\<close>
























section \<open>Properties of the field resolver\<close>

subsection \<open>Timestamps\<close>

lemma parseTimeLoop_none:
  "\<forall>f \<in> set fmts. timeParse to f val = None \<Longrightarrow> parseTimeLoop to fmts val = timeZero to"
  by (induction fmts) simp_all

lemma parseTime_none:
  "\<forall>f \<in> set timeFormats. timeParse to f val = None \<Longrightarrow> parseTime to val = timeZero to"
  by (simp add: parseTime_def parseTimeLoop_none)

lemma isTimeLoop_none:
  "\<forall>f \<in> set fmts. timeParse to f val = None \<Longrightarrow> \<not> isTimeLoop to fmts val"
  by (induction fmts) simp_all

lemma isTime_iff: "isTime to val = (\<exists>f \<in> set timeFormats. timeParse to f val \<noteq> None)"
proof -
  have "isTimeLoop to fmts val = (\<exists>f \<in> set fmts. timeParse to f val \<noteq> None)" for fmts
    by (induction fmts) (auto split: option.splits)
  then show ?thesis by (simp add: isTime_def)
qed

lemma garbage_no_time: "\<not> isTime goTime ''garbage''"
  by code_simp

lemma parseTime_garbage: "parseTime goTime ''garbage'' = zeroTime"
  by code_simp

lemma parseTime_date_only: "parseTime goTime ''2006-01-02'' = DateUTC 2006 1 2 0 0 0 0"
  by code_simp


lemma parseTime_instant: "parseTime goTime ''2006-01-02T15:04:05Z'' = DateUTC 2006 1 2 15 4 5 0"
  by code_simp

lemma isTime_date_only: "isTime goTime ''2006-01-02''"
  by code_simp

lemma instants_differ: "DateUTC 2006 1 2 15 4 5 0 \<noteq> DateUTC 2006 1 2 0 0 0 0"
  by (simp add: DateUTC_def)


subsection \<open>Values that do not parse\<close>


lemma Atoi_empty: "Atoi [] = None"
  by (simp add: Atoi_def)

lemma Atoi_8080: "Atoi ''8080'' = Some 8080"
  by (simp add: Atoi_def isDigit_def digitsVal_def digitVal_def)

text \<open>
  What the accessors do with a non-empty value that does not parse.  For a bool, an
  int or a float64 the accessor of that type reports not-found, with the zero value.  A
  string always parses.  The timestamp accessors have no such check: they report
  found, with the zero timestamp.
\<close>

lemma unparsable_values:
  assumes "val \<noteq> []"
  shows "(ParseBool val = None \<longrightarrow>
            (getenv (envName c) = val \<longrightarrow> EnvBool c getenv = (False, False))
            \<and> (envFile c (envName c) = Some val \<longrightarrow> EnvFileBool c = (False, False)))
       \<and> (Atoi val = None \<longrightarrow>
            (getenv (envName c) = val \<longrightarrow> EnvInt c getenv = (0, False))
            \<and> (envFile c (envName c) = Some val \<longrightarrow> EnvFileInt c = (0, False)))
       \<and> (ParseFloat fo val = None \<longrightarrow>
            (getenv (envName c) = val \<longrightarrow> EnvFloat fo c getenv = (floatZero fo, False))
            \<and> (envFile c (envName c) = Some val \<longrightarrow> EnvFileFloat fo c = (floatZero fo, False)))
       \<and> (getenv (envName c) = val \<longrightarrow> EnvString c getenv = (val, True))
       \<and> (envFile c (envName c) = Some val \<longrightarrow> EnvFileString c = (val, True))
       \<and> (\<not> isTime to val \<longrightarrow>
            (getenv (envName c) = val \<longrightarrow> EnvTime to c getenv = (timeZero to, True))
            \<and> (envFile c (envName c) = Some val \<longrightarrow> EnvFileTime to c = (timeZero to, True)))"
proof -
  have t: "\<not> isTime to val \<Longrightarrow> parseTime to val = timeZero to"
    by (rule parseTime_none) (simp add: isTime_iff)
  show ?thesis
    using assms t
    by (simp add: EnvBool_def EnvFileBool_def EnvInt_def EnvFileInt_def EnvFloat_def
          EnvFileFloat_def EnvString_def EnvFileString_def EnvTime_def EnvFileTime_def)
qed

lemma unparsable_values_example:
  "''garbage'' \<noteq> []
   \<and> ParseBool ''garbage'' = None \<and> Atoi ''garbage'' = None
   \<and> ParseFloat noFloat ''garbage'' = None \<and> \<not> isTime goTime ''garbage''
   \<and> oneVar ''HOST_PORT'' ''garbage'' (envName portContainer) = ''garbage''
   \<and> envFile (portContainer\<lparr>envFile := [''HOST_PORT'' \<mapsto> ''garbage'']\<rparr>)
        (envName portContainer) = Some ''garbage''
   \<and> EnvBool portContainer (oneVar ''HOST_PORT'' ''garbage'') = (False, False)
   \<and> EnvFileBool (portContainer\<lparr>envFile := [''HOST_PORT'' \<mapsto> ''garbage'']\<rparr>) = (False, False)
   \<and> EnvInt portContainer (oneVar ''HOST_PORT'' ''garbage'') = (0, False)
   \<and> EnvFileInt (portContainer\<lparr>envFile := [''HOST_PORT'' \<mapsto> ''garbage'']\<rparr>) = (0, False)
   \<and> EnvFloat noFloat portContainer (oneVar ''HOST_PORT'' ''garbage'') = (floatZero noFloat, False)
   \<and> EnvString portContainer (oneVar ''HOST_PORT'' ''garbage'') = (''garbage'', True)
   \<and> EnvTime goTime portContainer (oneVar ''HOST_PORT'' ''garbage'') = (zeroTime, True)"
proof -
  have v: "''garbage'' \<noteq> []" by simp
  have b: "ParseBool ''garbage'' = None" by (simp add: ParseBool_def)
  have a: "Atoi ''garbage'' = None" by (simp add: Atoi_def isDigit_def)
  have f: "ParseFloat noFloat ''garbage'' = None" by (simp add: noFloat_def)
  have e: "oneVar ''HOST_PORT'' ''garbage'' (envName portContainer) = ''garbage''"
    by (simp add: oneVar_def portContainer_def)
  have m: "envFile (portContainer\<lparr>envFile := [''HOST_PORT'' \<mapsto> ''garbage'']\<rparr>)
             (envName (portContainer\<lparr>envFile := [''HOST_PORT'' \<mapsto> ''garbage'']\<rparr>)) = Some ''garbage''"
    by (simp add: portContainer_def)
  have z: "timeZero goTime = zeroTime" by (simp add: goTime_def)
  show ?thesis
    using v b a f e m garbage_no_time
      unparsable_values [OF v, where c = portContainer
        and getenv = "oneVar ''HOST_PORT'' ''garbage''" and fo = noFloat and to = goTime]
      unparsable_values [OF v, where c = "portContainer\<lparr>envFile := [''HOST_PORT'' \<mapsto> ''garbage'']\<rparr>"
        and getenv = "oneVar ''HOST_PORT'' ''garbage''" and fo = noFloat and to = goTime]
    by (simp add: z)
qed

text \<open>
  Claim C2, at a timestamp field.  The value \<open>garbage\<close> is not empty and no layout
  parses it.  With \<open>WHEN=garbage\<close> in the environment \<open>EnvTime\<close> reports found and
  returns the zero timestamp, and so does \<open>EnvFileTime\<close> for the env-file entry
  \<open>WHEN=garbage\<close>; the accessors for a bool, an int and a float64 report not-found in
  that situation.
\<close>

theorem unparsable_timestamp_found:
  "''garbage'' \<noteq> []
   \<and> \<not> isTime goTime ''garbage''
   \<and> oneVar ''WHEN'' ''garbage'' (envName whenContainer) = ''garbage''
   \<and> EnvTime goTime whenContainer (oneVar ''WHEN'' ''garbage'') = (zeroTime, True)
   \<and> envFile (whenContainer\<lparr>envFile := [''WHEN'' \<mapsto> ''garbage'']\<rparr>)
        (envName (whenContainer\<lparr>envFile := [''WHEN'' \<mapsto> ''garbage'']\<rparr>)) = Some ''garbage''
   \<and> EnvFileTime goTime (whenContainer\<lparr>envFile := [''WHEN'' \<mapsto> ''garbage'']\<rparr>)
        = (zeroTime, True)
   \<and> EnvBool whenContainer (oneVar ''WHEN'' ''garbage'') = (False, False)
   \<and> EnvInt whenContainer (oneVar ''WHEN'' ''garbage'') = (0, False)"
  using garbage_no_time parseTime_garbage
  by (simp add: EnvTime_def EnvFileTime_def EnvBool_def EnvInt_def oneVar_def
        whenContainer_def goTime_def ParseBool_def Atoi_def isDigit_def)

subsection \<open>The env file against the environment\<close>




subsection \<open>Flags\<close>





subsection \<open>Construction\<close>

lemmas New_defs =
  New_def addFlag_def SetDefaultValueOnConfig_def andThen_def flag_Var_def
  IsBool_def IsInt_def IsFloat_def IsString_def IsTime_def
  SetConfigBool_def SetConfigInt_def SetConfigFloat_def SetConfigString_def SetConfigTime_def















section \<open>Properties of the entry point\<close>

subsection \<open>The resolution pass on one field\<close>

lemma setField_twice:
  "i < length config \<Longrightarrow> setField i b (setField i a config) = setField i b config"
  by (simp add: setField_def)

lemma setField_same:
  "i < length config \<Longrightarrow> sfValue (config ! i) = v \<Longrightarrow> setField i v config = config"
  by (simp add: setField_def list_update_same_conv)

lemma setField_value:
  "i < length config \<Longrightarrow> sfValue (setField i v config ! i) = v"
  by (simp add: setField_def)

lemma length_setField: "length (setField i v config) = length config"
  by (simp add: setField_def)

lemma SetConfigInt_ok:
  "fieldValue c = Some i \<Longrightarrow> i < length config \<Longrightarrow> sfValue (config ! i) = VInt x \<Longrightarrow>
   SetConfigInt c v config = Inr (setField i (VInt v) config)"
  by (simp add: SetConfigInt_def setField_def)




text \<open>Three conditional writes to the same field leave the last value written.\<close>

lemma resolveInt_eq:
  assumes "fieldValue c = Some i" "i < length config" "sfValue (config ! i) = VInt x0"
  shows "resolveInt c getenv fs config =
           Inr (setField i
                  (VInt (if snd (FlagInt c fs) then fst (FlagInt c fs)
                         else if snd (EnvFileInt c) then fst (EnvFileInt c)
                         else if snd (EnvInt c getenv) then fst (EnvInt c getenv)
                         else x0))
                  config)"
proof -
  obtain e eo where e: "EnvInt c getenv = (e, eo)" by (cases "EnvInt c getenv")
  obtain f fok where f: "EnvFileInt c = (f, fok)" by (cases "EnvFileInt c")
  obtain g gok where g: "FlagInt c fs = (g, gok)" by (cases "FlagInt c fs")
  have w: "SetConfigInt c v (setField i (VInt a) config) = Inr (setField i (VInt v) config)"
    for v a
    using SetConfigInt_ok [OF assms(1), of "setField i (VInt a) config" a v] assms(2)
    by (simp add: length_setField setField_value setField_twice)
  have w0: "SetConfigInt c v config = Inr (setField i (VInt v) config)" for v
    using SetConfigInt_ok [OF assms] .
  have s: "setField i (VInt x0) config = config"
    using assms(2,3) by (rule setField_same)
  show ?thesis
    by (cases eo; cases fok; cases gok)
       (simp_all add: resolveInt_def andThen_def e f g w w0 s)
qed





lemma resolveField_int:
  assumes "fieldValue c = Some i" "i < length config" "IsInt c"
    "sfValue (config ! i) = VInt (defaultValueToInt c)" "intValue c = Some p"
  shows "resolveField fo c getenv fs config =
           Inr (setField i
                  (VInt (if derefInt fs p \<noteq> defaultValueToInt c then derefInt fs p
                         else case Option.bind (envFile c (envName c)) Atoi of
                                Some v \<Rightarrow> v
                              | None \<Rightarrow>
                                  (case Atoi (getenv (envName c)) of
                                     Some v \<Rightarrow> v
                                   | None \<Rightarrow> defaultValueToInt c)))
                  config)"
proof -
  have t: "\<not> IsBool c" "\<not> IsFloat c" "\<not> IsString c"
    using assms(3) by (simp_all add: IsInt_def IsBool_def IsFloat_def IsString_def)
  have "resolveField fo c getenv fs config = resolveInt c getenv fs config"
    using assms(3) t by (simp add: resolveField_def andThen_def split: sum.splits)
  then show ?thesis
    using resolveInt_eq [OF assms(1,2,4), where getenv = getenv and fs = fs] assms(5)
    by (auto simp: FlagInt_def EnvFileInt_def EnvInt_def Atoi_empty Let_def
             split: option.splits)
qed





lemma Atoi_7070: "Atoi ''7070'' = Some 7070"
  by (simp add: Atoi_def isDigit_def digitsVal_def digitVal_def)

lemma Atoi_9090: "Atoi ''9090'' = Some 9090"
  by (simp add: Atoi_def isDigit_def digitsVal_def digitVal_def)

lemma portContainer_facts:
  "fieldValue (portContainer\<lparr>envFile := ef\<rparr>) = Some 0"
  "IsInt (portContainer\<lparr>envFile := ef\<rparr>)"
  "intValue (portContainer\<lparr>envFile := ef\<rparr>) = Some ''port''"
  "defaultValueToInt (portContainer\<lparr>envFile := ef\<rparr>) = 8080"
  "envName (portContainer\<lparr>envFile := ef\<rparr>) = ''HOST_PORT''"
  "envFile (portContainer\<lparr>envFile := ef\<rparr>) = ef"
  by (simp_all add: portContainer_def IsInt_def defaultValueToInt_def Atoi_8080)

lemma resolveField_port:
  "resolveField noFloat (portContainer\<lparr>envFile := ef\<rparr>) getenv (portFlags cur pd)
     [portField\<lparr>sfValue := VInt 8080\<rparr>]
     = Inr [portField\<lparr>sfValue := VInt
              (if cur \<noteq> 8080 then cur
               else case Option.bind (ef ''HOST_PORT'') Atoi of
                      Some v \<Rightarrow> v
                    | None \<Rightarrow> (case Atoi (getenv ''HOST_PORT'') of Some v \<Rightarrow> v | None \<Rightarrow> 8080))\<rparr>]"
proof -
  have d: "derefInt (portFlags cur pd) ''port'' = cur"
    by (simp add: derefInt_def portFlags_def)
  have l: "(0::nat) < length [portField\<lparr>sfValue := VInt 8080\<rparr>]" by simp
  have v: "sfValue ([portField\<lparr>sfValue := VInt 8080\<rparr>] ! 0)
             = VInt (defaultValueToInt (portContainer\<lparr>envFile := ef\<rparr>))"
    by (simp add: portContainer_facts(4))
  have "resolveField noFloat (portContainer\<lparr>envFile := ef\<rparr>) getenv (portFlags cur pd)
          [portField\<lparr>sfValue := VInt 8080\<rparr>]
        = Inr (setField 0
                 (VInt (if cur \<noteq> 8080 then cur
                        else case Option.bind (ef ''HOST_PORT'') Atoi of
                               Some v \<Rightarrow> v
                             | None \<Rightarrow>
                                 (case Atoi (getenv ''HOST_PORT'') of
                                    Some v \<Rightarrow> v | None \<Rightarrow> 8080)))
                 [portField\<lparr>sfValue := VInt 8080\<rparr>])"
    using resolveField_int [OF portContainer_facts(1) l portContainer_facts(2) v
            portContainer_facts(3), of noFloat getenv "portFlags cur pd"]
    unfolding portContainer_facts(4,5,6) d .
  then show ?thesis by (simp add: setField_def)
qed

lemma parse_port_file: "parse ''HOST_PORT=7070'' = ([''HOST_PORT'' \<mapsto> ''7070''], None)"
proof -
  have s: "scanLines ''HOST_PORT=7070'' = Inr [''HOST_PORT=7070'']"
    by (simp add: scanLines_def dropCR_def)
  have i: "\<not> isIgnoredLine ''HOST_PORT=7070''" by code_simp
  have p: "parseLine ''HOST_PORT=7070'' = Inr (''HOST_PORT'', ''7070'')" by code_simp
  show ?thesis unfolding parse_def s using i p by simp
qed



subsection \<open>Behold on a struct with one field\<close>

lemma ToLower_time: "ToLower ''time.Time'' = ''time.time''"
  by code_simp

lemma New_port:
  "New noFloat goTime [portField] 0 ef noFlags
     = Inr (portContainer\<lparr>envFile := ef\<rparr>, None, [portField\<lparr>sfValue := VInt 8080\<rparr>],
            portFlags 8080 False)"
  by (simp add: New_defs portField_def portContainer_def noFlags_def portFlags_def
        TagFlagName_def TagEnvName_def TagDefaultValue_def TagDescription_def tagGet_def
        HasPrefix_def ToLower_def toLowerChar_def isUpper_def defaultValueToInt_def Atoi_8080)

lemma New_host:
  "New noFloat goTime [hostField] 0 ef noFlags
     = Inr (hostContainer\<lparr>envFile := ef\<rparr>, None,
            [hostField\<lparr>sfValue := VString ''localhost:8080''\<rparr>],
            \<lparr>formal = [''host'' \<mapsto> FString ''localhost:8080''], parsed = False\<rparr>)"
  by (simp add: New_defs hostField_def hostContainer_def noFlags_def
        TagFlagName_def TagEnvName_def TagDefaultValue_def TagDescription_def tagGet_def
        HasPrefix_def ToLower_def toLowerChar_def isUpper_def defaultValueToString_def)

lemma newContainers_port:
  "newContainers noFloat goTime [0..<length [portField]] ef [portField] noFlags
     = Inr ([portContainer\<lparr>envFile := ef\<rparr>], [portField\<lparr>sfValue := VInt 8080\<rparr>],
            portFlags 8080 False)"
  by (simp add: New_port andThen_def)



lemma Behold_port_no_flag:
  "Behold noFloat goTime (Some ''HOST_PORT=7070'') (oneVar ''HOST_PORT'' ''9090'')
     [] [portField] noFlags
     = Inr ([portField\<lparr>sfValue := VInt 7070\<rparr>], portFlags 8080 False)"
proof -
  have r: "resolveAll noFloat [portContainer\<lparr>envFile := [''HOST_PORT'' \<mapsto> ''7070'']\<rparr>]
             (oneVar ''HOST_PORT'' ''9090'') (portFlags 8080 False)
             [portField\<lparr>sfValue := VInt 8080\<rparr>]
           = Inr [portField\<lparr>sfValue := VInt 7070\<rparr>]"
    by (simp add: resolveField_port andThen_def Atoi_7070)
  show ?thesis
    unfolding Behold_def parse_port_file option.case prod.case andThen_def sum.case
      newContainers_port
    by (simp add: r del: resolveAll.simps)
qed

lemma Behold_port_env_only:
  "Behold noFloat goTime None (oneVar ''HOST_PORT'' ''9090'') [] [portField] noFlags
     = Inr ([portField\<lparr>sfValue := VInt 9090\<rparr>], portFlags 8080 False)"
proof -
  have r: "resolveAll noFloat [portContainer\<lparr>envFile := Map.empty\<rparr>]
             (oneVar ''HOST_PORT'' ''9090'') (portFlags 8080 False)
             [portField\<lparr>sfValue := VInt 8080\<rparr>]
           = Inr [portField\<lparr>sfValue := VInt 9090\<rparr>]"
    by (simp add: resolveField_port andThen_def oneVar_def Atoi_9090)
  show ?thesis
    unfolding Behold_def option.case prod.case andThen_def sum.case newContainers_port
    by (simp add: r del: resolveAll.simps)
qed

lemma Behold_port_default:
  "Behold noFloat goTime None (\<lambda>n. []) [] [portField] noFlags
     = Inr ([portField\<lparr>sfValue := VInt 8080\<rparr>], portFlags 8080 False)"
proof -
  have r: "resolveAll noFloat [portContainer\<lparr>envFile := Map.empty\<rparr>]
             (\<lambda>n. []) (portFlags 8080 False) [portField\<lparr>sfValue := VInt 8080\<rparr>]
           = Inr [portField\<lparr>sfValue := VInt 8080\<rparr>]"
    by (simp add: resolveField_port andThen_def Atoi_empty)
  show ?thesis
    unfolding Behold_def option.case prod.case andThen_def sum.case newContainers_port
    by (simp add: r del: resolveAll.simps)
qed


subsection \<open>Timestamp fields\<close>

lemma resolveField_time_unchanged:
  "IsTime c \<Longrightarrow> resolveField fo c getenv fs config = Inr config"
  by (simp add: resolveField_def andThen_def IsTime_def IsBool_def IsFloat_def IsInt_def
        IsString_def)

lemma New_when:
  "New noFloat goTime [whenField] 0 ef noFlags
     = Inr (whenContainer\<lparr>envFile := ef\<rparr>, None,
            [whenField\<lparr>sfValue := VTime (jan2Midnight)\<rparr>],
            whenFlags ''2006-01-02'' False)"
proof -
  have d: "defaultValueToTime goTime (whenContainer\<lparr>envFile := ef, timeValue := Some ''when''\<rparr>)
             = jan2Midnight"
    using isTime_date_only parseTime_date_only
    by (simp add: defaultValueToTime_def whenContainer_def jan2Midnight_def)
  have c: "whenContainer\<lparr>envFile := ef, timeValue := Some ''when''\<rparr> = whenContainer\<lparr>envFile := ef\<rparr>"
    by (simp add: whenContainer_def)
  show ?thesis
    using d unfolding c
    by (simp add: New_defs whenField_def whenContainer_def noFlags_def whenFlags_def
        TagFlagName_def TagEnvName_def TagDefaultValue_def TagDescription_def tagGet_def
        HasPrefix_def ToLower_time defaultValueToString_def)
qed

lemma Behold_when:
  "Behold noFloat goTime None getenv [] [whenField] noFlags
     = Inr ([whenField\<lparr>sfValue := VTime (jan2Midnight)\<rparr>],
            whenFlags ''2006-01-02'' False)"
proof -
  have n: "newContainers noFloat goTime [0..<length [whenField]] Map.empty [whenField] noFlags
     = Inr ([whenContainer\<lparr>envFile := Map.empty\<rparr>],
            [whenField\<lparr>sfValue := VTime (jan2Midnight)\<rparr>],
            whenFlags ''2006-01-02'' False)"
    by (simp add: New_when andThen_def)
  have t: "IsTime (whenContainer\<lparr>envFile := Map.empty\<rparr>)"
    by (simp add: IsTime_def whenContainer_def)
  have r: "resolveAll noFloat [whenContainer\<lparr>envFile := Map.empty\<rparr>] getenv
             (whenFlags ''2006-01-02'' False)
             [whenField\<lparr>sfValue := VTime (jan2Midnight)\<rparr>]
           = Inr [whenField\<lparr>sfValue := VTime (jan2Midnight)\<rparr>]"
    by (simp add: resolveField_time_unchanged [OF t] andThen_def)
  show ?thesis
    unfolding Behold_def option.case prod.case andThen_def sum.case n
    by (simp add: r del: resolveAll.simps)
qed

text \<open>
  Claim C3, at its two inputs.  For the struct with the single field \<open>When\<close> (default
  \<open>2006-01-02\<close>) and nothing else set, \<open>Behold\<close> leaves the field at midnight UTC of that
  date.  With \<open>WHEN=2006-01-02T15:04:05Z\<close> in the environment it leaves the field at
  that same midnight: the resolution pass has no branch for timestamps, although
  \<open>EnvTime\<close> would find the value and parse it to the instant 15:04:05, which is another
  instant.
\<close>

theorem timestamp_override_ignored:
  "Behold noFloat goTime None (\<lambda>n. []) [] [whenField] noFlags
     = Inr ([whenField\<lparr>sfValue := VTime (jan2Midnight)\<rparr>],
            whenFlags ''2006-01-02'' False)
   \<and> Behold noFloat goTime None (oneVar ''WHEN'' ''2006-01-02T15:04:05Z'') [] [whenField] noFlags
     = Inr ([whenField\<lparr>sfValue := VTime (jan2Midnight)\<rparr>],
            whenFlags ''2006-01-02'' False)
   \<and> EnvTime goTime whenContainer (oneVar ''WHEN'' ''2006-01-02T15:04:05Z'')
     = (jan2Afternoon, True)
   \<and> jan2Afternoon \<noteq> jan2Midnight"
proof -
  have e: "EnvTime goTime whenContainer (oneVar ''WHEN'' ''2006-01-02T15:04:05Z'')
             = (jan2Afternoon, True)"
    using parseTime_instant
    by (simp add: EnvTime_def oneVar_def whenContainer_def jan2Afternoon_def)
  show ?thesis
    using Behold_when [of "\<lambda>n. []"] Behold_when [of "oneVar ''WHEN'' ''2006-01-02T15:04:05Z''"]
      e instants_differ
    by (simp add: jan2Midnight_def jan2Afternoon_def)
qed

end
